theory Spec2Isabelle
  imports Complex_Main "HOL-Library.Sublist"
begin

section \<open>JSON documents and the gjson queries the exporter uses\<close>

text \<open>
  The exporter never walks JSON text itself: every access is \<^verbatim>\<open>gjson.Get(text, path)\<close>
  followed by one of the conversions of \<^verbatim>\<open>gjson.Result\<close>. The model works on the
  document that the text denotes. A raw text is a \<open>json option\<close>: \<open>None\<close> is a text
  that \<^verbatim>\<open>gjson.Valid\<close> rejects. An object keeps its members in document order, since
  gjson answers with the first member of a given name. A number carries the
  \<^verbatim>\<open>float64\<close> that gjson reports as \<^verbatim>\<open>Num\<close>; \<^verbatim>\<open>float64\<close> arithmetic is
  idealised as arithmetic on \<open>real\<close>.
\<close>

datatype json =
    JNull
  | JBool bool
  | JNum real
  | JStr string
  | JArr "json list"
  | JObj "(string \<times> json) list"

text \<open>
  A path is split at its dots. The paths of the program are literals made of member
  names and \<^verbatim>\<open>#\<close>; the wildcards, escapes, queries and modifiers of gjson's path
  language do not occur in them and are not modelled.
\<close>

fun splitPath :: "string \<Rightarrow> string list" where
  "splitPath [] = [[]]"
| "splitPath (c # cs) =
     (if c = CHR ''.'' then [] # splitPath cs
      else (case splitPath cs of [] \<Rightarrow> [[c]] | p # ps \<Rightarrow> (c # p) # ps))"

text \<open>
  On an object a path component is a member name (also the component \<^verbatim>\<open>#\<close>). On an
  array, \<^verbatim>\<open>#\<close> followed by a rest collects, in order, the results of the rest on
  those elements where it exists, and the collection itself always exists; a final
  \<^verbatim>\<open>#\<close> is the number of elements. No other component of the program's paths
  selects anything in an array, and nothing is selected inside a scalar.
\<close>

fun getPath :: "string list \<Rightarrow> json \<Rightarrow> json option" where
  "getPath [] j = Some j"
| "getPath (k # ks) (JObj kvs) =
     (case map_of kvs k of None \<Rightarrow> None | Some v \<Rightarrow> getPath ks v)"
| "getPath (k # ks) (JArr xs) =
     (if k = ''#'' then
        (if ks = [] then Some (JNum (real (length xs)))
         else Some (JArr (List.map_filter (getPath ks) xs)))
      else None)"
| "getPath (k # ks) _ = None"

definition gjson_Get :: "json \<Rightarrow> string \<Rightarrow> json option" where
  "gjson_Get doc path = getPath (splitPath path) doc"

text \<open>
  The conversions of \<^verbatim>\<open>gjson.Result\<close>, on \<open>None\<close> for a result that does not exist.
  What they return on a string that has to be read as a number, on a number beyond
  \<open>2^53 - 1\<close> read as an integer, and the text they give for a number, an array or an
  object, depend on Go's \<^verbatim>\<open>strconv\<close> and on the text of the document; the model takes
  these as parameters.
\<close>

record golib =
  ParseFloat :: "string \<Rightarrow> real"
  ParseInt :: "string \<Rightarrow> int"
  BigInt :: "real \<Rightarrow> int"
  RawText :: "json \<Rightarrow> string"

definition res_Exists :: "json option \<Rightarrow> bool" where
  "res_Exists r = (r \<noteq> None)"

text \<open>\<^verbatim>\<open>Type == gjson.JSON\<close>: the result is an array or an object.\<close>

fun res_isJSON :: "json option \<Rightarrow> bool" where
  "res_isJSON (Some (JArr xs)) = True"
| "res_isJSON (Some (JObj kvs)) = True"
| "res_isJSON _ = False"

fun res_Float :: "golib \<Rightarrow> json option \<Rightarrow> real" where
  "res_Float L (Some (JNum v)) = v"
| "res_Float L (Some (JBool b)) = (if b then 1 else 0)"
| "res_Float L (Some (JStr s)) = ParseFloat L s"
| "res_Float L _ = 0"

text \<open>Go's conversion of a \<^verbatim>\<open>float64\<close> to \<^verbatim>\<open>int64\<close> discards the fraction.\<close>

definition truncFloat :: "real \<Rightarrow> int" where
  "truncFloat v = (if 0 \<le> v then \<lfloor>v\<rfloor> else \<lceil>v\<rceil>)"

fun res_Int :: "golib \<Rightarrow> json option \<Rightarrow> int" where
  "res_Int L (Some (JNum v)) =
     (if - 9007199254740991 \<le> v \<and> v \<le> 9007199254740991 then truncFloat v else BigInt L v)"
| "res_Int L (Some (JBool b)) = (if b then 1 else 0)"
| "res_Int L (Some (JStr s)) = ParseInt L s"
| "res_Int L _ = 0"

fun res_String :: "golib \<Rightarrow> json option \<Rightarrow> string" where
  "res_String L None = []"
| "res_String L (Some JNull) = []"
| "res_String L (Some (JBool b)) = (if b then ''true'' else ''false'')"
| "res_String L (Some (JStr s)) = s"
| "res_String L (Some j) = RawText L j"

text \<open>
  \<^verbatim>\<open>Result.Array()\<close>: no element for a missing or null result, the elements of an
  array, and the value itself as the only element otherwise.
\<close>

fun res_Array :: "json option \<Rightarrow> json list" where
  "res_Array None = []"
| "res_Array (Some JNull) = []"
| "res_Array (Some (JArr xs)) = xs"
| "res_Array (Some j) = [j]"

section \<open>The controller of a namespace device\<close>

text \<open>
  \<^verbatim>\<open>getControllerFromNs\<close> matches the name against the regular expression
  \<^verbatim>\<open>^.*(nvme\d+).*\d+$\<close> and returns the first group. The expression is a sequence of
  one-character classes, greedy repetitions of a class and the two ends of the group;
  \<open>rmatch\<close> is the backtracking matcher for such sequences, anchored at both ends of
  the text, trying the longer repetition first as Go's leftmost-first matching does.
  In Go \<^verbatim>\<open>.\<close> matches every character but the line feed, and \<^verbatim>\<open>\d\<close> the ten ASCII
  digits.
\<close>

datatype cclass = AnyChar | Digit | Lit char

datatype inst = One cclass | Star cclass | GroupOpen | GroupClose

definition isDigit :: "char \<Rightarrow> bool" where
  "isDigit c = (c \<in> set ''0123456789'')"

fun cmatch :: "cclass \<Rightarrow> char \<Rightarrow> bool" where
  "cmatch AnyChar c = (c \<noteq> CHR 0x0A)"
| "cmatch Digit c = isDigit c"
| "cmatch (Lit a) c = (c = a)"

text \<open>
  \<open>rmatch p s opn cap\<close>: the rest \<open>p\<close> of the expression against the rest \<open>s\<close> of
  the text; \<open>opn\<close> says whether the group is open, \<open>cap\<close> is the text of the group
  so far. The result is the text of the group of the first successful alternative.
\<close>

fun rmatch :: "inst list \<Rightarrow> string \<Rightarrow> bool \<Rightarrow> string \<Rightarrow> string option" where
  "rmatch [] s opn cap = (if s = [] then Some cap else None)"
| "rmatch (GroupOpen # p) s opn cap = rmatch p s True []"
| "rmatch (GroupClose # p) s opn cap = rmatch p s False cap"
| "rmatch (One c # p) [] opn cap = None"
| "rmatch (One c # p) (x # xs) opn cap =
     (if cmatch c x then rmatch p xs opn (if opn then cap @ [x] else cap) else None)"
| "rmatch (Star c # p) [] opn cap = rmatch p [] opn cap"
| "rmatch (Star c # p) (x # xs) opn cap =
     (if cmatch c x then
        (case rmatch (Star c # p) xs opn (if opn then cap @ [x] else cap) of
           Some r \<Rightarrow> Some r
         | None \<Rightarrow> rmatch p (x # xs) opn cap)
      else rmatch p (x # xs) opn cap)"

definition nsRegexp :: "inst list" where
  "nsRegexp =
     [Star AnyChar, GroupOpen,
      One (Lit CHR ''n''), One (Lit CHR ''v''), One (Lit CHR ''m''), One (Lit CHR ''e''),
      One Digit, Star Digit, GroupClose,
      Star AnyChar, One Digit, Star Digit]"

datatype error =
    InvalidListJson
  | BadDeviceFile string
  | NoControllerFound
  | NoDevicesFound
  | CommandFailed string
  | InvalidSmartLogJson string

definition getControllerFromNs :: "string \<Rightarrow> error + string" where
  "getControllerFromNs ns =
     (case rmatch nsRegexp ns False [] of
        Some controller \<Rightarrow> Inr controller
      | None \<Rightarrow> Inl (BadDeviceFile ns))"

text \<open>
  The pattern in the words of the specification: the name contains a controller token
  \<^verbatim>\<open>nvme\<close>\<open>N\<close>, where \<open>N\<close> is a whole run of digits (what follows it is not a digit),
  followed eventually by a numeric suffix that ends the name.
\<close>

definition hasControllerToken :: "string \<Rightarrow> bool" where
  "hasControllerToken s =
     (\<exists>pre num mid suf. s = pre @ ''nvme'' @ num @ mid @ suf \<and>
        num \<noteq> [] \<and> (\<forall>c \<in> set num. isDigit c) \<and>
        mid \<noteq> [] \<and> \<not> isDigit (hd mid) \<and>
        suf \<noteq> [] \<and> (\<forall>c \<in> set suf. isDigit c))"

text \<open>
  The weaker pattern that the regular expression enforces: \<^verbatim>\<open>nvme\<close>, at least one
  digit, and later a digit that ends the name. Nothing has to stand between the two:
  one run of digits can give both, its last digit being the suffix.
\<close>

definition hasTokenAndFinalDigit :: "string \<Rightarrow> bool" where
  "hasTokenAndFinalDigit s =
     (\<exists>pre num mid suf. s = pre @ ''nvme'' @ num @ mid @ suf \<and>
        num \<noteq> [] \<and> (\<forall>c \<in> set num. isDigit c) \<and>
        suf \<noteq> [] \<and> (\<forall>c \<in> set suf. isDigit c))"

section \<open>The list of namespace devices\<close>

record nvmeNamespace =
  devicePath :: string
  nsController :: string
  nsPhysicalSize :: int
  nsTotalCapacity :: int
  nsMaximumLBA :: int
  nsUsedBytes :: int
  nsSectorSize :: int

text \<open>
  A \<^verbatim>\<open>for ... range\<close> loop whose body appends device records to \<^verbatim>\<open>deviceList\<close> or
  ends the process with \<^verbatim>\<open>log.Fatalf\<close>: the records of the elements in order, or the
  first fatal error.
\<close>

fun forEach :: "('a \<Rightarrow> error + 'b list) \<Rightarrow> 'a list \<Rightarrow> error + 'b list" where
  "forEach body [] = Inr []"
| "forEach body (x # xs) =
     (case body x of
        Inl e \<Rightarrow> Inl e
      | Inr ys \<Rightarrow> (case forEach body xs of Inl e \<Rightarrow> Inl e | Inr zs \<Rightarrow> Inr (ys @ zs)))"

text \<open>
  The record of one namespace entry under a known controller; the total capacity keeps
  Go's zero value until \<^verbatim>\<open>Collect\<close> fills it in. \<^verbatim>\<open>gjson.Get(namespace.String(), k)\<close>
  is the query \<open>k\<close> on the entry.
\<close>

definition namespaceDevice :: "golib \<Rightarrow> json \<Rightarrow> string \<Rightarrow> nvmeNamespace" where
  "namespaceDevice L namespace controller =
     \<lparr> devicePath = ''/dev/'' @ res_String L (gjson_Get namespace ''NameSpace''),
       nsController = controller,
       nsPhysicalSize = res_Int L (gjson_Get namespace ''PhysicalSize''),
       nsTotalCapacity = 0,
       nsMaximumLBA = res_Int L (gjson_Get namespace ''MaximumLBA''),
       nsUsedBytes = res_Int L (gjson_Get namespace ''UsedBytes''),
       nsSectorSize = res_Int L (gjson_Get namespace ''SectorSize'') \<rparr>"

text \<open>Body of the innermost loop of the first branch (namespaces without a controller).\<close>

definition subsystemNamespace :: "golib \<Rightarrow> json \<Rightarrow> error + nvmeNamespace list" where
  "subsystemNamespace L namespace =
     (let ns = res_String L (gjson_Get namespace ''NameSpace'') in
      case getControllerFromNs ns of
        Inl e \<Rightarrow> Inl e
      | Inr controller \<Rightarrow> Inr [namespaceDevice L namespace controller])"

definition nsLoop :: "golib \<Rightarrow> json option \<Rightarrow> error + nvmeNamespace list" where
  "nsLoop L devices =
     forEach (\<lambda>subsystems.
       forEach (\<lambda>namespaces.
         forEach (subsystemNamespace L) (res_Array (Some namespaces)))
       (res_Array (Some subsystems)))
     (res_Array devices)"

text \<open>Body of the loop over the controllers of the second branch.\<close>

definition controllerNamespaces :: "golib \<Rightarrow> json \<Rightarrow> error + nvmeNamespace list" where
  "controllerNamespaces L controller =
     (let controllerID = res_String L (gjson_Get controller ''Controller'') in
      if controllerID = [] then Inl NoControllerFound
      else Inr (map (\<lambda>namespace. namespaceDevice L namespace controllerID)
                  (res_Array (gjson_Get controller ''Namespaces''))))"

definition ctrlLoop :: "golib \<Rightarrow> json option \<Rightarrow> error + nvmeNamespace list" where
  "ctrlLoop L devices =
     forEach (\<lambda>subsystems.
       forEach (\<lambda>controllers.
         forEach (controllerNamespaces L) (res_Array (Some controllers)))
       (res_Array (Some subsystems)))
     (res_Array devices)"

text \<open>Body of the loop of the third branch (a flat list of device paths).\<close>

definition flatDevice :: "golib \<Rightarrow> json \<Rightarrow> error + nvmeNamespace list" where
  "flatDevice L devicePathResult =
     (let path = res_String L (Some devicePathResult) in
      case getControllerFromNs path of
        Inl e \<Rightarrow> Inl e
      | Inr controller \<Rightarrow>
          Inr [\<lparr> devicePath = path, nsController = controller, nsPhysicalSize = - 1,
                 nsTotalCapacity = 0, nsMaximumLBA = - 1, nsUsedBytes = - 1,
                 nsSectorSize = - 1 \<rparr>])"

definition flatLoop :: "golib \<Rightarrow> json option \<Rightarrow> error + nvmeNamespace list" where
  "flatLoop L devices = forEach (flatDevice L) (res_Array devices)"

text \<open>
  \<^verbatim>\<open>getDeviceList\<close>. The first branch has no \<^verbatim>\<open>return\<close>: its records stay in
  \<^verbatim>\<open>deviceList\<close> and the later branches append to them.
\<close>

definition getDeviceList :: "golib \<Rightarrow> json option \<Rightarrow> error + nvmeNamespace list" where
  "getDeviceList L nvmeListOutput =
     (case nvmeListOutput of
        None \<Rightarrow> Inl InvalidListJson
      | Some doc \<Rightarrow>
          (let devices = gjson_Get doc ''Devices.#.Subsystems.#.Namespaces'' in
           case (if 0 < length (res_Array devices) then nsLoop L devices else Inr []) of
             Inl e \<Rightarrow> Inl e
           | Inr deviceList \<Rightarrow>
               (let devices = gjson_Get doc ''Devices.#.Subsystems.#.Controllers'' in
                if 0 < length (res_Array devices) then
                  (case ctrlLoop L devices of
                     Inl e \<Rightarrow> Inl e
                   | Inr found \<Rightarrow> Inr (deviceList @ found))
                else
                  (let devices = gjson_Get doc ''Devices.#.DevicePath'' in
                   if 0 < length (res_Array devices) then
                     (case flatLoop L devices of
                        Inl e \<Rightarrow> Inl e
                      | Inr found \<Rightarrow> Inr (deviceList @ found))
                   else Inl NoDevicesFound))))"

text \<open>What each branch finds in a document, taken by itself.\<close>

definition nsRecords :: "golib \<Rightarrow> json \<Rightarrow> error + nvmeNamespace list" where
  "nsRecords L doc = nsLoop L (gjson_Get doc ''Devices.#.Subsystems.#.Namespaces'')"

definition ctrlRecords :: "golib \<Rightarrow> json \<Rightarrow> error + nvmeNamespace list" where
  "ctrlRecords L doc = ctrlLoop L (gjson_Get doc ''Devices.#.Subsystems.#.Controllers'')"

definition flatRecords :: "golib \<Rightarrow> json \<Rightarrow> error + nvmeNamespace list" where
  "flatRecords L doc = flatLoop L (gjson_Get doc ''Devices.#.DevicePath'')"

section \<open>The collector and its metrics\<close>

text \<open>
  A descriptor is its metric name and its label names (the help text plays no part in
  what is collected). A metric is what \<^verbatim>\<open>prometheus.MustNewConstMetric\<close> is given: the
  descriptor, the kind of value, the value and the label values. Every descriptor of
  \<^verbatim>\<open>newNvmeCollector\<close> is used with as many label values as it has labels, so the
  panic of \<^verbatim>\<open>MustNewConstMetric\<close> does not arise.
\<close>

record Desc =
  fqName :: string
  variableLabels :: "string list"

datatype ValueType = CounterValue | GaugeValue

record Metric =
  desc :: Desc
  valType :: ValueType
  val :: real
  labelValues :: "string list"

definition NewDesc :: "string \<Rightarrow> string list \<Rightarrow> Desc" where
  "NewDesc name labels = \<lparr> fqName = name, variableLabels = labels \<rparr>"

definition MustNewConstMetric :: "Desc \<Rightarrow> ValueType \<Rightarrow> real \<Rightarrow> string list \<Rightarrow> Metric" where
  "MustNewConstMetric d t v ls = \<lparr> desc = d, valType = t, val = v, labelValues = ls \<rparr>"

definition labelsDevice :: "string list" where
  "labelsDevice = [''device'']"

definition labelsDeviceController :: "string list" where
  "labelsDeviceController = [''device'', ''controller'']"

definition labelsController :: "string list" where
  "labelsController = [''controller'']"

definition maxTempSensors :: nat where
  "maxTempSensors = 8"

text \<open>\<^verbatim>\<open>%d\<close> of \<^verbatim>\<open>fmt.Sprintf\<close> on a number that is not negative.\<close>

fun showNat :: "nat \<Rightarrow> string" where
  "showNat n =
     (if n < 10 then [''0123456789'' ! n]
      else showNat (n div 10) @ [''0123456789'' ! (n mod 10)])"

declare showNat.simps [simp del]

record nvmeCollector =
  nvmeCriticalWarning :: Desc
  nvmeAvailableSpare :: Desc
  nvmeTempThreshold :: Desc
  nvmeReliabilityDegraded :: Desc
  nvmeRO :: Desc
  nvmeVMBUFailed :: Desc
  nvmePMRRO :: Desc
  nvmeTemperature :: Desc
  nvmeAvailSpare :: Desc
  nvmeSpareThresh :: Desc
  nvmePercentUsed :: Desc
  nvmeEnduranceGrpCriticalWarningSummary :: Desc
  nvmeDataUnitsRead :: Desc
  nvmeDataUnitsWritten :: Desc
  nvmeHostReadCommands :: Desc
  nvmeHostWriteCommands :: Desc
  nvmeControllerBusyTime :: Desc
  nvmePowerCycles :: Desc
  nvmePowerOnHours :: Desc
  nvmeUnsafeShutdowns :: Desc
  nvmeMediaErrors :: Desc
  nvmeNumErrLogEntries :: Desc
  nvmeWarningTempTime :: Desc
  nvmeCriticalCompTime :: Desc
  nvmeTemperatureSensors :: "Desc list"
  nvmeThmTemp1TransCount :: Desc
  nvmeThmTemp2TransCount :: Desc
  nvmeThmTemp1TotalTime :: Desc
  nvmeThmTemp2TotalTime :: Desc
  nvmeNSPhysicalSize :: Desc
  nvmeNSMaximumLBA :: Desc
  nvmeNSUsedBytes :: Desc
  nvmeNSSectorSize :: Desc
  nvmeTotalCapacity :: Desc
  temperatureScale :: string

definition sensorDescriptions :: "Desc list" where
  "sensorDescriptions =
     map (\<lambda>i. NewDesc (''nvme_temperature_sensor'' @ showNat i) labelsDevice)
       [1 ..< maxTempSensors + 1]"

definition newNvmeCollector :: "string \<Rightarrow> nvmeCollector" where
  "newNvmeCollector scale =
     \<lparr>
       nvmeCriticalWarning = NewDesc ''nvme_critical_warning'' labelsDevice,
       nvmeAvailableSpare = NewDesc ''nvme_available_spare_critical'' labelsDevice,
       nvmeTempThreshold = NewDesc ''nvme_temp_threshold_exceeded'' labelsDevice,
       nvmeReliabilityDegraded = NewDesc ''nvme_reliability_degraded'' labelsDevice,
       nvmeRO = NewDesc ''nvme_readonly'' labelsDevice,
       nvmeVMBUFailed = NewDesc ''nvme_vmbu_failed'' labelsDevice,
       nvmePMRRO = NewDesc ''nvme_pmr_ro'' labelsDevice,
       nvmeTemperature = NewDesc ''nvme_temperature'' labelsDevice,
       nvmeAvailSpare = NewDesc ''nvme_avail_spare'' labelsDevice,
       nvmeSpareThresh = NewDesc ''nvme_spare_thresh'' labelsDevice,
       nvmePercentUsed = NewDesc ''nvme_percent_used'' labelsDevice,
       nvmeEnduranceGrpCriticalWarningSummary = NewDesc ''nvme_endurance_grp_critical_warning_summary'' labelsDevice,
       nvmeDataUnitsRead = NewDesc ''nvme_data_units_read'' labelsDevice,
       nvmeDataUnitsWritten = NewDesc ''nvme_data_units_written'' labelsDevice,
       nvmeHostReadCommands = NewDesc ''nvme_host_read_commands'' labelsDevice,
       nvmeHostWriteCommands = NewDesc ''nvme_host_write_commands'' labelsDevice,
       nvmeControllerBusyTime = NewDesc ''nvme_controller_busy_time'' labelsDevice,
       nvmePowerCycles = NewDesc ''nvme_power_cycles'' labelsDevice,
       nvmePowerOnHours = NewDesc ''nvme_power_on_hours'' labelsDevice,
       nvmeUnsafeShutdowns = NewDesc ''nvme_unsafe_shutdowns'' labelsDevice,
       nvmeMediaErrors = NewDesc ''nvme_media_errors'' labelsDevice,
       nvmeNumErrLogEntries = NewDesc ''nvme_num_err_log_entries'' labelsDevice,
       nvmeWarningTempTime = NewDesc ''nvme_warning_temp_time'' labelsDevice,
       nvmeCriticalCompTime = NewDesc ''nvme_critical_comp_time'' labelsDevice,
       nvmeTemperatureSensors = sensorDescriptions,
       nvmeThmTemp1TransCount = NewDesc ''nvme_thm_temp1_trans_count'' labelsDevice,
       nvmeThmTemp2TransCount = NewDesc ''nvme_thm_temp2_trans_count'' labelsDevice,
       nvmeThmTemp1TotalTime = NewDesc ''nvme_thm_temp1_trans_time'' labelsDevice,
       nvmeThmTemp2TotalTime = NewDesc ''nvme_thm_temp2_trans_time'' labelsDevice,
       nvmeNSPhysicalSize = NewDesc ''nvme_namespace_physical_size'' labelsDeviceController,
       nvmeNSMaximumLBA = NewDesc ''nvme_namespace_maximum_lba'' labelsDeviceController,
       nvmeNSUsedBytes = NewDesc ''nvme_namespace_used_bytes'' labelsDeviceController,
       nvmeNSSectorSize = NewDesc ''nvme_namespace_sector_size'' labelsDeviceController,
       nvmeTotalCapacity = NewDesc ''nvme_total_capacity'' labelsController,
       temperatureScale = scale \<rparr>"

text \<open>\<^verbatim>\<open>strings.Contains(s, substr)\<close>.\<close>

definition strings_Contains :: "string \<Rightarrow> string \<Rightarrow> bool" where
  "strings_Contains s substr = sublist substr s"

text \<open>
  \<^verbatim>\<open>makeMetric\<close>. The two tests of the scale follow each other as in the source; the
  second sees the value the first has left.
\<close>

definition makeMetric ::
  "golib \<Rightarrow> nvmeCollector \<Rightarrow> Desc \<Rightarrow> ValueType \<Rightarrow> json \<Rightarrow> string \<Rightarrow> string \<Rightarrow> Metric" where
  "makeMetric L c description valueType result substring label =
     (let value = res_Float L (gjson_Get result substring);
          value =
            (if strings_Contains substring ''temperature'' then
               (let value = (if temperatureScale c = ''celsius'' then value - 273 else value)
                in if temperatureScale c = ''fahrenheit'' then (value - 273.15) * 9 / 5 + 32
                   else value)
             else value)
      in MustNewConstMetric description valueType value [label])"

text \<open>
  The loop over the temperature sensors in \<^verbatim>\<open>Collect\<close>, from index \<open>i\<close> on: it ends
  at the first sensor that the document does not have, or after \<open>maxTempSensors\<close>.
  The collector is the one of \<^verbatim>\<open>newNvmeCollector\<close>, whose list of sensor descriptors
  has \<open>maxTempSensors\<close> entries, so the index \<open>i - 1\<close> is within the list.
\<close>

function sensorLoop :: "golib \<Rightarrow> nvmeCollector \<Rightarrow> json \<Rightarrow> string \<Rightarrow> nat \<Rightarrow> Metric list" where
  "sensorLoop L c text path i =
     (if i \<le> maxTempSensors then
        (let tempValue = gjson_Get text (''temperature_sensor_'' @ showNat i) in
         if \<not> res_Exists tempValue then []
         else makeMetric L c (nvmeTemperatureSensors c ! (i - 1)) GaugeValue text
                (''temperature_sensor_'' @ showNat i) path
              # sensorLoop L c text path (i + 1))
      else [])"
  by pat_completeness auto
termination
  by (relation "measure (\<lambda>(L, c, text, path, i). maxTempSensors + 1 - i)") auto

declare sensorLoop.simps [simp del]

text \<open>
  The metrics of the \<^verbatim>\<open>critical_warning\<close> member: its seven parts and the temperature
  sensors when it is a section of its own, the member itself otherwise.
  \<^verbatim>\<open>nvmeCriticalWarning.String()\<close> is then the text of the section, and the query on
  that text is the query on the section.
\<close>

definition criticalWarningMetrics ::
  "golib \<Rightarrow> nvmeCollector \<Rightarrow> json \<Rightarrow> string \<Rightarrow> Metric list" where
  "criticalWarningMetrics L c text path =
     (let criticalWarning = gjson_Get text ''critical_warning'' in
      if res_isJSON criticalWarning then
        (case criticalWarning of
           Some section \<Rightarrow>
             [
      makeMetric L c (nvmeCriticalWarning c) GaugeValue section ''value'' path,
      makeMetric L c (nvmeAvailableSpare c) GaugeValue section ''available_spare'' path,
      makeMetric L c (nvmeTempThreshold c) GaugeValue section ''temp_threshold'' path,
      makeMetric L c (nvmeReliabilityDegraded c) GaugeValue section ''reliability_degraded'' path,
      makeMetric L c (nvmeRO c) GaugeValue section ''ro'' path,
      makeMetric L c (nvmeVMBUFailed c) GaugeValue section ''vmbu_failed'' path,
      makeMetric L c (nvmePMRRO c) GaugeValue section ''pmr_ro'' path
             ] @ sensorLoop L c text path 1
         | None \<Rightarrow> [])
      else [makeMetric L c (nvmeCriticalWarning c) GaugeValue text ''critical_warning'' path])"

text \<open>The metrics that every smart log gives, in the order of the source.\<close>

definition healthMetrics :: "golib \<Rightarrow> nvmeCollector \<Rightarrow> json \<Rightarrow> string \<Rightarrow> Metric list" where
  "healthMetrics L c text path =
     [
      makeMetric L c (nvmeTemperature c) GaugeValue text ''temperature'' path,
      makeMetric L c (nvmeAvailSpare c) GaugeValue text ''avail_spare'' path,
      makeMetric L c (nvmeSpareThresh c) GaugeValue text ''spare_thresh'' path,
      makeMetric L c (nvmePercentUsed c) GaugeValue text ''percent_used'' path,
      makeMetric L c (nvmeEnduranceGrpCriticalWarningSummary c) GaugeValue text ''endurance_grp_critical_warning_summary'' path,
      makeMetric L c (nvmeDataUnitsRead c) CounterValue text ''data_units_read'' path,
      makeMetric L c (nvmeDataUnitsWritten c) CounterValue text ''data_units_written'' path,
      makeMetric L c (nvmeHostReadCommands c) CounterValue text ''host_read_commands'' path,
      makeMetric L c (nvmeHostWriteCommands c) CounterValue text ''host_write_commands'' path,
      makeMetric L c (nvmeControllerBusyTime c) CounterValue text ''controller_busy_time'' path,
      makeMetric L c (nvmePowerCycles c) CounterValue text ''power_cycles'' path,
      makeMetric L c (nvmePowerOnHours c) CounterValue text ''power_on_hours'' path,
      makeMetric L c (nvmeUnsafeShutdowns c) CounterValue text ''unsafe_shutdowns'' path,
      makeMetric L c (nvmeMediaErrors c) CounterValue text ''media_errors'' path,
      makeMetric L c (nvmeNumErrLogEntries c) CounterValue text ''num_err_log_entries'' path,
      makeMetric L c (nvmeWarningTempTime c) CounterValue text ''warning_temp_time'' path,
      makeMetric L c (nvmeCriticalCompTime c) CounterValue text ''critical_comp_time'' path,
      makeMetric L c (nvmeThmTemp1TransCount c) CounterValue text ''thm_temp1_trans_count'' path,
      makeMetric L c (nvmeThmTemp2TransCount c) CounterValue text ''thm_temp2_trans_count'' path,
      makeMetric L c (nvmeThmTemp1TotalTime c) CounterValue text ''thm_temp3_total_time'' path,
      makeMetric L c (nvmeThmTemp2TotalTime c) CounterValue text ''thm_temp1_total_time'' path
     ]"

text \<open>
  The part of the loop body of \<^verbatim>\<open>Collect\<close> that reads the smart log of one device:
  the validity check and the metrics sent to the channel.
\<close>

definition smartLogMetrics ::
  "golib \<Rightarrow> nvmeCollector \<Rightarrow> json option \<Rightarrow> string \<Rightarrow> error + Metric list" where
  "smartLogMetrics L c nvmeSmartLog path =
     (case nvmeSmartLog of
        None \<Rightarrow> Inl (InvalidSmartLogJson path)
      | Some text \<Rightarrow> Inr (criticalWarningMetrics L c text path @ healthMetrics L c text path))"

text \<open>The four gauges of the namespace that end the loop body.\<close>

definition namespaceMetrics :: "nvmeCollector \<Rightarrow> nvmeNamespace \<Rightarrow> Metric list" where
  "namespaceMetrics c nvmeDevice =
     (let path = devicePath nvmeDevice; controller = nsController nvmeDevice in
      [MustNewConstMetric (nvmeNSMaximumLBA c) GaugeValue (real_of_int (nsMaximumLBA nvmeDevice))
         [path, controller],
       MustNewConstMetric (nvmeNSUsedBytes c) GaugeValue (real_of_int (nsUsedBytes nvmeDevice))
         [path, controller],
       MustNewConstMetric (nvmeNSSectorSize c) GaugeValue (real_of_int (nsSectorSize nvmeDevice))
         [path, controller],
       MustNewConstMetric (nvmeNSPhysicalSize c) GaugeValue
         (real_of_int (nsPhysicalSize nvmeDevice)) [path, controller]])"

text \<open>
  One round of the second loop of \<^verbatim>\<open>Collect\<close>: \<open>smartLog\<close> is what the command
  \<^verbatim>\<open>nvme smart-log\<close> gave for the device, an error or its output.
\<close>

definition collectDevice ::
  "golib \<Rightarrow> nvmeCollector \<Rightarrow> nvmeNamespace \<Rightarrow> error + json option \<Rightarrow> error + Metric list" where
  "collectDevice L c nvmeDevice smartLog =
     (case smartLog of
        Inl e \<Rightarrow> Inl e
      | Inr nvmeSmartLog \<Rightarrow>
          (case smartLogMetrics L c nvmeSmartLog (devicePath nvmeDevice) of
             Inl e \<Rightarrow> Inl e
           | Inr ms \<Rightarrow> Inr (ms @ namespaceMetrics c nvmeDevice)))"

section \<open>The total capacity of the controllers\<close>

text \<open>
  The first loop of \<^verbatim>\<open>Collect\<close> runs \<^verbatim>\<open>nvme id-ctrl -o json /dev/<controller>\<close> for
  each device of the list and stores the \<^verbatim>\<open>tnvmcap\<close> of the output in the device.
  The command is a function of its last argument and of the state \<open>'w\<close> of the
  machine; it fails or prints a document (the source reads the output without checking
  that it is JSON; the model takes it to be). A failure ends the process.
\<close>

type_synonym 'w command = "string \<Rightarrow> 'w \<Rightarrow> (error + json) \<times> 'w"

fun enrichDevices ::
  "golib \<Rightarrow> 'w command \<Rightarrow> nvmeNamespace list \<Rightarrow> 'w \<Rightarrow> (error + nvmeNamespace list) \<times> 'w" where
  "enrichDevices L idCtrl [] w = (Inr [], w)"
| "enrichDevices L idCtrl (nvmeDevice # rest) w =
     (case idCtrl (''/dev/'' @ nsController nvmeDevice) w of
        (Inl e, w') \<Rightarrow> (Inl e, w')
      | (Inr nvmeIDCtrlOutput, w') \<Rightarrow>
          (case enrichDevices L idCtrl rest w' of
             (Inl e, w'') \<Rightarrow> (Inl e, w'')
           | (Inr rest', w'') \<Rightarrow>
               (Inr (nvmeDevice\<lparr>nsTotalCapacity :=
                        res_Int L (gjson_Get nvmeIDCtrlOutput ''tnvmcap'')\<rparr> # rest'),
                w'')))"

text \<open>
  A command that also keeps the list of its invocations, each with its argument and
  its result.
\<close>

definition logged :: "'w command \<Rightarrow> ('w \<times> (string \<times> (error + json)) list) command" where
  "logged cmd arg = (\<lambda>(w, calls).
     case cmd arg w of (r, w') \<Rightarrow> (r, (w', calls @ [(arg, r)])))"

section \<open>Tables and documents used in the statements\<close>

text \<open>
  The members that \<^verbatim>\<open>Collect\<close> reads from every smart log, each with the field of the
  collector that holds its descriptor and the kind of its value, in the order of the
  source: the table that \<open>healthMetrics\<close> walks through.
\<close>

definition healthFields :: "((nvmeCollector \<Rightarrow> Desc) \<times> ValueType \<times> string) list" where
  "healthFields =
     [(nvmeTemperature, GaugeValue, ''temperature''),
      (nvmeAvailSpare, GaugeValue, ''avail_spare''),
      (nvmeSpareThresh, GaugeValue, ''spare_thresh''),
      (nvmePercentUsed, GaugeValue, ''percent_used''),
      (nvmeEnduranceGrpCriticalWarningSummary, GaugeValue,
         ''endurance_grp_critical_warning_summary''),
      (nvmeDataUnitsRead, CounterValue, ''data_units_read''),
      (nvmeDataUnitsWritten, CounterValue, ''data_units_written''),
      (nvmeHostReadCommands, CounterValue, ''host_read_commands''),
      (nvmeHostWriteCommands, CounterValue, ''host_write_commands''),
      (nvmeControllerBusyTime, CounterValue, ''controller_busy_time''),
      (nvmePowerCycles, CounterValue, ''power_cycles''),
      (nvmePowerOnHours, CounterValue, ''power_on_hours''),
      (nvmeUnsafeShutdowns, CounterValue, ''unsafe_shutdowns''),
      (nvmeMediaErrors, CounterValue, ''media_errors''),
      (nvmeNumErrLogEntries, CounterValue, ''num_err_log_entries''),
      (nvmeWarningTempTime, CounterValue, ''warning_temp_time''),
      (nvmeCriticalCompTime, CounterValue, ''critical_comp_time''),
      (nvmeThmTemp1TransCount, CounterValue, ''thm_temp1_trans_count''),
      (nvmeThmTemp2TransCount, CounterValue, ''thm_temp2_trans_count''),
      (nvmeThmTemp1TotalTime, CounterValue, ''thm_temp3_total_time''),
      (nvmeThmTemp2TotalTime, CounterValue, ''thm_temp1_total_time'')]"

text \<open>The seven parts of a \<^verbatim>\<open>critical_warning\<close> section, with their descriptors.\<close>

definition criticalWarningFields :: "((nvmeCollector \<Rightarrow> Desc) \<times> string) list" where
  "criticalWarningFields =
     [(nvmeCriticalWarning, ''value''),
      (nvmeAvailableSpare, ''available_spare''),
      (nvmeTempThreshold, ''temp_threshold''),
      (nvmeReliabilityDegraded, ''reliability_degraded''),
      (nvmeRO, ''ro''),
      (nvmeVMBUFailed, ''vmbu_failed''),
      (nvmePMRRO, ''pmr_ro'')]"

text \<open>A scalar is a JSON value that is neither an array nor an object.\<close>

fun isScalar :: "json \<Rightarrow> bool" where
  "isScalar (JArr xs) = False"
| "isScalar (JObj kvs) = False"
| "isScalar _ = True"

text \<open>
  An instance of the library parameters for the examples. The documents of the examples
  hold no string that is read as a number, no number beyond \<open>2^53 - 1\<close> and no
  number, array or object that is read as a text, so the examples do not depend on it.
\<close>

definition golib0 :: golib where
  "golib0 = \<lparr> ParseFloat = (\<lambda>s. 0), ParseInt = (\<lambda>s. 0), BigInt = (\<lambda>v. 0),
              RawText = (\<lambda>j. []) \<rparr>"

text \<open>The sample of temperature sensor \<open>i\<close>: its descriptor, read from its member.\<close>

definition sensorMetric :: "golib \<Rightarrow> nvmeCollector \<Rightarrow> json \<Rightarrow> string \<Rightarrow> nat \<Rightarrow> Metric" where
  "sensorMetric L c text path i =
     makeMetric L c (NewDesc (''nvme_temperature_sensor'' @ showNat i) labelsDevice) GaugeValue text
       (''temperature_sensor_'' @ showNat i) path"

text \<open>The values of the samples of a given metric name in what a collection returns.\<close>

definition valuesOf :: "string \<Rightarrow> error + Metric list \<Rightarrow> real list" where
  "valuesOf name r =
     (case r of
        Inl e \<Rightarrow> []
      | Inr ms \<Rightarrow> map val (filter (\<lambda>m. fqName (desc m) = name) ms))"

text \<open>
  A smart log in the old form, with both thermal times, and the smart log of the
  comment in the source in the new form, with three temperature sensors.
\<close>

definition thermalSmartLog :: json where
  "thermalSmartLog =
     JObj [(''critical_warning'', JNum 0),
           (''temperature'', JNum 310),
           (''thm_temp1_trans_count'', JNum 0),
           (''thm_temp2_trans_count'', JNum 0),
           (''thm_temp1_total_time'', JNum 5),
           (''thm_temp2_total_time'', JNum 7)]"

definition newSmartLog :: json where
  "newSmartLog =
     JObj [(''critical_warning'',
              JObj [(''value'', JNum 0), (''available_spare'', JNum 0),
                    (''temp_threshold'', JNum 0), (''reliability_degraded'', JNum 0),
                    (''ro'', JNum 0), (''vmbu_failed'', JNum 0), (''pmr_ro'', JNum 0)]),
           (''temperature'', JNum 296),
           (''avail_spare'', JNum 100),
           (''spare_thresh'', JNum 10),
           (''percent_used'', JNum 0),
           (''temperature_sensor_1'', JNum 302),
           (''temperature_sensor_2'', JNum 298),
           (''temperature_sensor_3'', JNum 296),
           (''temperature_sensor_5'', JNum 300),
           (''thm_temp1_total_time'', JNum 0),
           (''thm_temp2_total_time'', JNum 0)]"

text \<open>
  Two namespaces of one controller, and an \<^verbatim>\<open>id-ctrl\<close> command that always succeeds
  with the same answer and leaves the state of the machine alone.
\<close>

definition sharedDevices :: "nvmeNamespace list" where
  "sharedDevices =
     [\<lparr> devicePath = ''/dev/nvme0n1'', nsController = ''nvme0'', nsPhysicalSize = 1024,
         nsTotalCapacity = 0, nsMaximumLBA = 2, nsUsedBytes = 512, nsSectorSize = 512 \<rparr>,
      \<lparr> devicePath = ''/dev/nvme0n2'', nsController = ''nvme0'', nsPhysicalSize = 2048,
         nsTotalCapacity = 0, nsMaximumLBA = 4, nsUsedBytes = 512, nsSectorSize = 512 \<rparr>]"

definition idCtrlConst :: "unit command" where
  "idCtrlConst dev w = (Inr (JObj [(''vid'', JNum 5197), (''tnvmcap'', JNum 3072)]), w)"

text \<open>
  A document is regular when its \<^verbatim>\<open>Devices\<close> is an array and the \<^verbatim>\<open>Subsystems\<close> of each
  of its entries, where there is one, is an array: the form of every generation of the
  output of \<^verbatim>\<open>nvme list\<close>.
\<close>

fun arrayOrMissing :: "json option \<Rightarrow> bool" where
  "arrayOrMissing None = True"
| "arrayOrMissing (Some (JArr xs)) = True"
| "arrayOrMissing (Some j) = False"

definition regularDevices :: "json \<Rightarrow> bool" where
  "regularDevices doc =
     (case gjson_Get doc ''Devices'' of
        Some (JArr ds) \<Rightarrow> list_all (\<lambda>d. arrayOrMissing (gjson_Get d ''Subsystems'')) ds
      | _ \<Rightarrow> False)"

text \<open>The record of the flat legacy branch for a device path and its controller.\<close>

definition legacyDevice :: "string \<Rightarrow> string \<Rightarrow> nvmeNamespace" where
  "legacyDevice path controller =
     \<lparr> devicePath = path, nsController = controller, nsPhysicalSize = - 1,
       nsTotalCapacity = 0, nsMaximumLBA = - 1, nsUsedBytes = - 1, nsSectorSize = - 1 \<rparr>"

text \<open>
  The documents of the tests of \<^verbatim>\<open>getDeviceList\<close>: the old format of the first test, and
  the two subsystems of the mixed document of the fourth, one with its namespace under
  the subsystem and controllers without namespaces, one with its namespace under its
  controller. \<open>mixedDevices\<close> lists them as the test does, \<open>mixedDevicesReversed\<close> the
  other way round.
\<close>

definition oldDevices :: json where
  "oldDevices =
     JObj [(''Devices'', JArr [
       JObj [(''NameSpace'', JNum 1),
             (''DevicePath'', JStr ''/dev/nvme0n1''),
             (''Firmware'', JStr ''XXXXXXXX''),
             (''ModelNumber'', JStr ''XXXXXXX''),
             (''SerialNumber'', JStr ''XXXXXXX''),
             (''UsedBytes'', JNum (- 2147483648)),
             (''MaximumLBA'', JNum 1875385008),
             (''PhysicalSize'', JNum (- 2147483648)),
             (''SectorSize'', JNum 512)]])]"

definition subsys9 :: json where
  "subsys9 =
     JObj [(''Subsystem'', JStr ''nvme-subsys9''),
           (''SubsystemNQN'', JStr ''nqn.2016-01.com.lightbitslabs:uuid:696-aa11-4912-acf9-eb2cfcd''),
           (''Controllers'', JArr [
              JObj [(''Controller'', JStr ''nvme0''), (''Cntlid'', JStr ''566''),
                    (''Transport'', JStr ''tcp''), (''Slot'', JStr ''''),
                    (''Namespaces'', JArr []),
                    (''Paths'', JArr [JObj [(''Path'', JStr ''nvme9c0n1''),
                                            (''ANAState'', JStr ''inaccessible'')]])],
              JObj [(''Controller'', JStr ''nvme10''), (''Cntlid'', JStr ''390''),
                    (''Transport'', JStr ''tcp''), (''Slot'', JStr ''''),
                    (''Namespaces'', JArr []), (''Paths'', JArr [])],
              JObj [(''Controller'', JStr ''nvme11''), (''Cntlid'', JStr ''3843''),
                    (''Transport'', JStr ''tcp''), (''Slot'', JStr ''''),
                    (''Namespaces'', JArr []),
                    (''Paths'', JArr [JObj [(''Path'', JStr ''nvme9c11n1''),
                                            (''ANAState'', JStr ''optimized'')]])],
              JObj [(''Controller'', JStr ''nvme9''), (''Cntlid'', JStr ''5126''),
                    (''Transport'', JStr ''tcp''), (''Slot'', JStr ''''),
                    (''Namespaces'', JArr []), (''Paths'', JArr [])]]),
           (''Namespaces'', JArr [
              JObj [(''NameSpace'', JStr ''nvme9n1''), (''Generic'', JStr ''ng9n1''),
                    (''NSID'', JNum 29017), (''UsedBytes'', JNum 137438953472),
                    (''MaximumLBA'', JNum 268435456), (''PhysicalSize'', JNum 137438953472),
                    (''SectorSize'', JNum 512)]])]"

definition subsys3 :: json where
  "subsys3 =
     JObj [(''Subsystem'', JStr ''nvme-subsys3''),
           (''SubsystemNQN'', JStr ''nqn.2016-08.com.micron:nvme:nvm-subsystem-sn-2402473F6E8C''),
           (''Controllers'', JArr [
              JObj [(''Controller'', JStr ''nvme3''), (''Cntlid'', JStr ''0''),
                    (''Transport'', JStr ''pcie''), (''Slot'', JStr ''12''),
                    (''Namespaces'', JArr [
                       JObj [(''NameSpace'', JStr ''nvme3n1''), (''Generic'', JStr ''ng3n1''),
                             (''NSID'', JNum 1), (''UsedBytes'', JNum 7486193664),
                             (''MaximumLBA'', JNum 1875385008),
                             (''PhysicalSize'', JNum 960197124096),
                             (''SectorSize'', JNum 512)]]),
                    (''Paths'', JArr [])]]),
           (''Namespaces'', JArr [])]"

definition mixedDevices :: json where
  "mixedDevices =
     JObj [(''Devices'', JArr [
       JObj [(''HostNQN'', JStr ''2f91420a-922f-5e49-b86e-b6bdc2f62412''),
             (''HostID'', JStr ''95a57b1a-be86-4528-b093-57c49ee379d6''),
             (''Subsystems'', JArr [subsys9, subsys3])]])]"

definition mixedDevicesReversed :: json where
  "mixedDevicesReversed =
     JObj [(''Devices'', JArr [
       JObj [(''HostNQN'', JStr ''2f91420a-922f-5e49-b86e-b6bdc2f62412''),
             (''HostID'', JStr ''95a57b1a-be86-4528-b093-57c49ee379d6''),
             (''Subsystems'', JArr [subsys3, subsys9])]])]"

definition nvme9n1 :: nvmeNamespace where
  "nvme9n1 =
     \<lparr> devicePath = ''/dev/nvme9n1'', nsController = ''nvme9'',
       nsPhysicalSize = 137438953472, nsTotalCapacity = 0, nsMaximumLBA = 268435456,
       nsUsedBytes = 137438953472, nsSectorSize = 512 \<rparr>"

definition nvme3n1 :: nvmeNamespace where
  "nvme3n1 =
     \<lparr> devicePath = ''/dev/nvme3n1'', nsController = ''nvme3'',
       nsPhysicalSize = 960197124096, nsTotalCapacity = 0, nsMaximumLBA = 1875385008,
       nsUsedBytes = 7486193664, nsSectorSize = 512 \<rparr>"

text \<open>
  The conversion of a temperature in the words of the specification: Celsius is kelvin
  minus 273, Fahrenheit is \<open>(K - 273.15) * 9 / 5 + 32\<close>, and kelvin, like any other
  scale, leaves the value as it is.
\<close>

definition kelvinTo :: "string \<Rightarrow> real \<Rightarrow> real" where
  "kelvinTo scale kelvin =
     (if scale = ''celsius'' then kelvin - 273
      else if scale = ''fahrenheit'' then (kelvin - 273.15) * 9 / 5 + 32
      else kelvin)"

section \<open>Properties\<close>

subsection \<open>The regular expression of the device name\<close>

text \<open>
  Soundness of the matcher: from a successful match, the part of the text that each
  piece of the expression has consumed.
\<close>

lemma one_sound:
  "rmatch (One c # p) s opn cap = Some r \<Longrightarrow>
     \<exists>x xs cap'. s = x # xs \<and> cmatch c x \<and> rmatch p xs opn cap' = Some r"
  by (cases s) (auto split: if_splits)

lemma star_sound:
  "rmatch (Star c # p) s opn cap = Some r \<Longrightarrow>
     \<exists>us vs cap'. s = us @ vs \<and> (\<forall>x \<in> set us. cmatch c x) \<and> rmatch p vs opn cap' = Some r"
proof (induction s arbitrary: cap)
  case Nil
  then show ?case by auto
next
  case (Cons x xs)
  show ?case
  proof (cases "cmatch c x \<and> rmatch (Star c # p) xs opn (if opn then cap @ [x] else cap) \<noteq> None")
    case True
    then obtain r' where r': "rmatch (Star c # p) xs opn (if opn then cap @ [x] else cap) = Some r'"
      by auto
    with True Cons.prems have "r' = r" by simp
    with r' Cons.IH obtain us vs cap' where
      "xs = us @ vs" "\<forall>x \<in> set us. cmatch c x" "rmatch p vs opn cap' = Some r"
      by blast
    with True show ?thesis
      by (rule_tac x = "x # us" in exI) auto
  next
    case False
    with Cons.prems have "rmatch p (x # xs) opn cap = Some r"
      by (auto split: if_splits option.splits)
    then show ?thesis
      by (rule_tac x = "[]" in exI) auto
  qed
qed

lemma lit_sound:
  "rmatch (One (Lit a) # p) s opn cap = Some r \<Longrightarrow>
     \<exists>xs cap'. s = a # xs \<and> rmatch p xs opn cap' = Some r"
  by (cases s) (auto split: if_splits)

lemma nvme_token_sound: assumes m2: "rmatch [
      One (Lit CHR ''n''), One (Lit CHR ''v''), One (Lit CHR ''m''), One (Lit CHR ''e''),
      One Digit, Star Digit, GroupClose,
      Star AnyChar, One Digit, Star Digit] s1 True [] = Some r"
  shows "\<exists>d s2 cap2. s1 = ''nvme'' @ d # s2 \<and> isDigit d \<and>
     rmatch [Star Digit, GroupClose, Star AnyChar, One Digit, Star Digit] s2 True cap2 = Some r"
proof -
  from m2 obtain t1 c1 where "s1 = CHR ''n'' # t1" and 1: "rmatch [
      One (Lit CHR ''v''), One (Lit CHR ''m''), One (Lit CHR ''e''),
      One Digit, Star Digit, GroupClose,
      Star AnyChar, One Digit, Star Digit] t1 True c1 = Some r"
    by (blast dest: lit_sound)
  from 1 obtain t2 c2 where "t1 = CHR ''v'' # t2" and 2: "rmatch [
      One (Lit CHR ''m''), One (Lit CHR ''e''),
      One Digit, Star Digit, GroupClose,
      Star AnyChar, One Digit, Star Digit] t2 True c2 = Some r"
    by (blast dest: lit_sound)
  from 2 obtain t3 c3 where "t2 = CHR ''m'' # t3" and 3: "rmatch [
      One (Lit CHR ''e''),
      One Digit, Star Digit, GroupClose,
      Star AnyChar, One Digit, Star Digit] t3 True c3 = Some r"
    by (blast dest: lit_sound)
  from 3 obtain t4 c4 where "t3 = CHR ''e'' # t4" and 4: "rmatch [
      One Digit, Star Digit, GroupClose,
      Star AnyChar, One Digit, Star Digit] t4 True c4 = Some r"
    by (blast dest: lit_sound)
  from 4 obtain d t5 c5 where "t4 = d # t5" "cmatch Digit d" and 5: "rmatch [
      Star Digit, GroupClose,
      Star AnyChar, One Digit, Star Digit] t5 True c5 = Some r"
    by (blast dest: one_sound)
  show ?thesis
    using \<open>s1 = _\<close> \<open>t1 = _\<close> \<open>t2 = _\<close> \<open>t3 = _\<close> \<open>t4 = _\<close> \<open>cmatch Digit d\<close> 5 by auto
qed

lemma nsRegexp_sound:
  assumes "rmatch nsRegexp s False [] = Some r"
  shows "hasTokenAndFinalDigit s"
proof -
  from star_sound [OF assms [unfolded nsRegexp_def]] obtain pre s1 cap1 where s: "s = pre @ s1"
    and m1: "rmatch [GroupOpen,
      One (Lit CHR ''n''), One (Lit CHR ''v''), One (Lit CHR ''m''), One (Lit CHR ''e''),
      One Digit, Star Digit, GroupClose,
      Star AnyChar, One Digit, Star Digit] s1 False cap1 = Some r"
    by blast
  from m1 have m2: "rmatch [
      One (Lit CHR ''n''), One (Lit CHR ''v''), One (Lit CHR ''m''), One (Lit CHR ''e''),
      One Digit, Star Digit, GroupClose,
      Star AnyChar, One Digit, Star Digit] s1 True [] = Some r"
    by simp
  from nvme_token_sound [OF this] obtain d s2 cap2 where s1: "s1 = ''nvme'' @ d # s2"
    and d: "isDigit d"
    and m3: "rmatch [Star Digit, GroupClose, Star AnyChar, One Digit, Star Digit] s2 True cap2 = Some r"
    by blast
  from star_sound [OF m3] obtain ds s3 cap3 where s2: "s2 = ds @ s3"
    and ds: "\<forall>x \<in> set ds. cmatch Digit x"
    and m4: "rmatch [GroupClose, Star AnyChar, One Digit, Star Digit] s3 True cap3 = Some r"
    by blast
  from m4 have "rmatch [Star AnyChar, One Digit, Star Digit] s3 False cap3 = Some r"
    by simp
  from star_sound [OF this] obtain mid s4 cap4 where s3: "s3 = mid @ s4"
    and m5: "rmatch [One Digit, Star Digit] s4 False cap4 = Some r"
    by blast
  from one_sound [OF m5] obtain e s5 cap5 where s4: "s4 = e # s5" and e: "cmatch Digit e"
    and m6: "rmatch [Star Digit] s5 False cap5 = Some r"
    by blast
  from star_sound [OF m6] obtain es s6 cap6 where s5: "s5 = es @ s6"
    and es: "\<forall>x \<in> set es. cmatch Digit x"
    and m7: "rmatch [] s6 False cap6 = Some r"
    by blast
  from m7 have s6: "s6 = []" by (simp split: if_splits)
  have "s = pre @ ''nvme'' @ (d # ds) @ mid @ (e # es) \<and>
        d # ds \<noteq> [] \<and> (\<forall>c \<in> set (d # ds). isDigit c) \<and>
        e # es \<noteq> [] \<and> (\<forall>c \<in> set (e # es). isDigit c)"
    using s s1 s2 s3 s4 s5 s6 d ds e es by simp
  then show ?thesis
    unfolding hasTokenAndFinalDigit_def by (intro exI)
qed

lemma hasTokenAndFinalDigit_sublist: "hasTokenAndFinalDigit s \<Longrightarrow> sublist ''nvme'' s"
  unfolding hasTokenAndFinalDigit_def sublist_def by blast

lemma hasControllerToken_weaker: "hasControllerToken s \<Longrightarrow> hasTokenAndFinalDigit s"
  unfolding hasControllerToken_def hasTokenAndFinalDigit_def by blast

lemma hasControllerToken_position:
  assumes "hasControllerToken s"
  shows "\<exists>k. k + 7 \<le> length s \<and> s ! k = CHR ''n''"
proof -
  from assms obtain pre num mid suf where s: "s = pre @ ''nvme'' @ num @ mid @ suf"
    and "num \<noteq> []" "mid \<noteq> []" "suf \<noteq> []"
    unfolding hasControllerToken_def by blast
  then have "1 \<le> length num" "1 \<le> length mid" "1 \<le> length suf"
    by (simp_all add: Suc_le_eq)
  with s have "length pre + 7 \<le> length s" by simp
  moreover from s have "s ! length pre = CHR ''n''" by simp
  ultimately show ?thesis by blast
qed

text \<open>
  C8, as stated, fails: in \<^verbatim>\<open>/dev/nvme12\<close> the controller token is \<^verbatim>\<open>nvme12\<close> and no
  suffix follows it, yet \<^verbatim>\<open>getControllerFromNs\<close> does not fail: the regular expression
  gives up the last digit of the run, and the result is \<^verbatim>\<open>nvme1\<close>.
\<close>

theorem digit_run_counterexample:
  "\<not> hasControllerToken ''/dev/nvme12'' \<and>
   getControllerFromNs ''/dev/nvme12'' = Inr ''nvme1''"
proof
  show "\<not> hasControllerToken ''/dev/nvme12''"
  proof
    assume "hasControllerToken ''/dev/nvme12''"
    from hasControllerToken_position [OF this] obtain k where
      k: "k + 7 \<le> length ''/dev/nvme12''" and n: "''/dev/nvme12'' ! k = CHR ''n''"
      by blast
    from k have "k = 0 \<or> k = 1 \<or> k = 2 \<or> k = 3 \<or> k = 4" by simp arith
    with n show False by auto
  qed
  show "getControllerFromNs ''/dev/nvme12'' = Inr ''nvme1''"
    by (simp add: getControllerFromNs_def nsRegexp_def isDigit_def)
qed

text \<open>
  C8, amended. \<^verbatim>\<open>getControllerFromNs\<close> returns \<^verbatim>\<open>nvme2\<close> on \<^verbatim>\<open>/dev/nvme2n1\<close> and
  \<^verbatim>\<open>nvme9\<close> on \<^verbatim>\<open>nvme9n1\<close>, and it ends the process with a fatal error, instead of
  returning a value, on every name that does not contain \<^verbatim>\<open>nvme\<close> and a digit followed,
  directly or later, by a digit that ends the name. Every name with the pattern of the
  specification has this weaker pattern, so the names that are fatal here are among those
  of the specification.
\<close>

theorem getControllerFromNs_spec:
  "getControllerFromNs ''/dev/nvme2n1'' = Inr ''nvme2'' \<and>
   getControllerFromNs ''nvme9n1'' = Inr ''nvme9'' \<and>
   (\<not> hasTokenAndFinalDigit ns \<longrightarrow> getControllerFromNs ns = Inl (BadDeviceFile ns)) \<and>
   (hasControllerToken ns \<longrightarrow> hasTokenAndFinalDigit ns)"
proof (intro conjI impI)
  show "getControllerFromNs ''/dev/nvme2n1'' = Inr ''nvme2''"
    by (simp add: getControllerFromNs_def nsRegexp_def isDigit_def)
  show "getControllerFromNs ''nvme9n1'' = Inr ''nvme9''"
    by (simp add: getControllerFromNs_def nsRegexp_def isDigit_def)
next
  assume no: "\<not> hasTokenAndFinalDigit ns"
  have "rmatch nsRegexp ns False [] = None"
  proof (cases "rmatch nsRegexp ns False []")
    case None
    then show ?thesis .
  next
    case (Some r)
    from nsRegexp_sound [OF this] no show ?thesis by contradiction
  qed
  then show "getControllerFromNs ns = Inl (BadDeviceFile ns)"
    by (simp add: getControllerFromNs_def)
next
  assume "hasControllerToken ns"
  then show "hasTokenAndFinalDigit ns"
    by (rule hasControllerToken_weaker)
qed

text \<open>
  The name \<^verbatim>\<open>/dev/sda1\<close> does not contain \<^verbatim>\<open>nvme\<close> and is fatal; the name
  \<^verbatim>\<open>/dev/nvme2n1\<close> has the pattern of the specification, and so the weaker one.
\<close>

theorem getControllerFromNs_spec_witness:
  "\<not> hasTokenAndFinalDigit ''/dev/sda1'' \<and>
   getControllerFromNs ''/dev/sda1'' = Inl (BadDeviceFile ''/dev/sda1'') \<and>
   hasControllerToken ''/dev/nvme2n1'' \<and>
   hasTokenAndFinalDigit ''/dev/nvme2n1''"
proof -
  have "\<not> sublist ''nvme'' ''/dev/sda1''"
    by (simp add: sublist_Cons_right)
  then have h: "\<not> hasTokenAndFinalDigit ''/dev/sda1''"
    using hasTokenAndFinalDigit_sublist by blast
  have "''/dev/nvme2n1'' = ''/dev/'' @ ''nvme'' @ ''2'' @ ''n'' @ ''1'' \<and>
      ''2'' \<noteq> [] \<and> (\<forall>c \<in> set ''2''. isDigit c) \<and>
      ''n'' \<noteq> [] \<and> \<not> isDigit (hd ''n'') \<and>
      ''1'' \<noteq> [] \<and> (\<forall>c \<in> set ''1''. isDigit c)"
    by (simp add: isDigit_def)
  then have t: "hasControllerToken ''/dev/nvme2n1''"
    unfolding hasControllerToken_def by (intro exI)
  from getControllerFromNs_spec [of "''/dev/sda1''"]
    getControllerFromNs_spec [of "''/dev/nvme2n1''"] h t
  show ?thesis
    by blast
qed

subsection \<open>The metrics of a smart log\<close>

lemma desc_makeMetric [simp]: "desc (makeMetric L c d t text f p) = d"
  by (simp add: makeMetric_def MustNewConstMetric_def Let_def)

lemma healthMetrics_table:
  "healthMetrics L c text path =
     map (\<lambda>(d, t, f). makeMetric L c (d c) t text f path) healthFields"
  by (simp add: healthMetrics_def healthFields_def)

lemma sensorDescriptions_length: "length sensorDescriptions = 8"
  by (simp add: sensorDescriptions_def maxTempSensors_def)

lemma sensorDescriptions_nth:
  "1 \<le> i \<Longrightarrow> i \<le> 8 \<Longrightarrow>
   sensorDescriptions ! (i - Suc 0) = NewDesc (''nvme_temperature_sensor'' @ showNat i) labelsDevice"
  by (simp add: sensorDescriptions_def maxTempSensors_def)

lemma sensorDescriptions_mem:
  "1 \<le> i \<Longrightarrow> i \<le> 8 \<Longrightarrow>
   NewDesc (''nvme_temperature_sensor'' @ showNat i) labelsDevice \<in> set sensorDescriptions"
  by (auto simp: sensorDescriptions_def maxTempSensors_def)

lemma not_sensor:
  "\<not> prefix ''nvme_temperature_sensor'' n \<Longrightarrow> NewDesc n ls \<notin> set sensorDescriptions"
  by (auto simp: sensorDescriptions_def NewDesc_def)

lemma collector_fields:
  "nvmeCriticalWarning (newNvmeCollector scale) = NewDesc ''nvme_critical_warning'' labelsDevice"
  "nvmeAvailableSpare (newNvmeCollector scale) = NewDesc ''nvme_available_spare_critical'' labelsDevice"
  "nvmeTempThreshold (newNvmeCollector scale) = NewDesc ''nvme_temp_threshold_exceeded'' labelsDevice"
  "nvmeReliabilityDegraded (newNvmeCollector scale) = NewDesc ''nvme_reliability_degraded'' labelsDevice"
  "nvmeRO (newNvmeCollector scale) = NewDesc ''nvme_readonly'' labelsDevice"
  "nvmeVMBUFailed (newNvmeCollector scale) = NewDesc ''nvme_vmbu_failed'' labelsDevice"
  "nvmePMRRO (newNvmeCollector scale) = NewDesc ''nvme_pmr_ro'' labelsDevice"
  "nvmeTemperature (newNvmeCollector scale) = NewDesc ''nvme_temperature'' labelsDevice"
  "nvmeAvailSpare (newNvmeCollector scale) = NewDesc ''nvme_avail_spare'' labelsDevice"
  "nvmeSpareThresh (newNvmeCollector scale) = NewDesc ''nvme_spare_thresh'' labelsDevice"
  "nvmePercentUsed (newNvmeCollector scale) = NewDesc ''nvme_percent_used'' labelsDevice"
  "nvmeEnduranceGrpCriticalWarningSummary (newNvmeCollector scale) = NewDesc ''nvme_endurance_grp_critical_warning_summary'' labelsDevice"
  "nvmeDataUnitsRead (newNvmeCollector scale) = NewDesc ''nvme_data_units_read'' labelsDevice"
  "nvmeDataUnitsWritten (newNvmeCollector scale) = NewDesc ''nvme_data_units_written'' labelsDevice"
  "nvmeHostReadCommands (newNvmeCollector scale) = NewDesc ''nvme_host_read_commands'' labelsDevice"
  "nvmeHostWriteCommands (newNvmeCollector scale) = NewDesc ''nvme_host_write_commands'' labelsDevice"
  "nvmeControllerBusyTime (newNvmeCollector scale) = NewDesc ''nvme_controller_busy_time'' labelsDevice"
  "nvmePowerCycles (newNvmeCollector scale) = NewDesc ''nvme_power_cycles'' labelsDevice"
  "nvmePowerOnHours (newNvmeCollector scale) = NewDesc ''nvme_power_on_hours'' labelsDevice"
  "nvmeUnsafeShutdowns (newNvmeCollector scale) = NewDesc ''nvme_unsafe_shutdowns'' labelsDevice"
  "nvmeMediaErrors (newNvmeCollector scale) = NewDesc ''nvme_media_errors'' labelsDevice"
  "nvmeNumErrLogEntries (newNvmeCollector scale) = NewDesc ''nvme_num_err_log_entries'' labelsDevice"
  "nvmeWarningTempTime (newNvmeCollector scale) = NewDesc ''nvme_warning_temp_time'' labelsDevice"
  "nvmeCriticalCompTime (newNvmeCollector scale) = NewDesc ''nvme_critical_comp_time'' labelsDevice"
  "nvmeTemperatureSensors (newNvmeCollector scale) = sensorDescriptions"
  "nvmeThmTemp1TransCount (newNvmeCollector scale) = NewDesc ''nvme_thm_temp1_trans_count'' labelsDevice"
  "nvmeThmTemp2TransCount (newNvmeCollector scale) = NewDesc ''nvme_thm_temp2_trans_count'' labelsDevice"
  "nvmeThmTemp1TotalTime (newNvmeCollector scale) = NewDesc ''nvme_thm_temp1_trans_time'' labelsDevice"
  "nvmeThmTemp2TotalTime (newNvmeCollector scale) = NewDesc ''nvme_thm_temp2_trans_time'' labelsDevice"
  "nvmeNSPhysicalSize (newNvmeCollector scale) = NewDesc ''nvme_namespace_physical_size'' labelsDeviceController"
  "nvmeNSMaximumLBA (newNvmeCollector scale) = NewDesc ''nvme_namespace_maximum_lba'' labelsDeviceController"
  "nvmeNSUsedBytes (newNvmeCollector scale) = NewDesc ''nvme_namespace_used_bytes'' labelsDeviceController"
  "nvmeNSSectorSize (newNvmeCollector scale) = NewDesc ''nvme_namespace_sector_size'' labelsDeviceController"
  "nvmeTotalCapacity (newNvmeCollector scale) = NewDesc ''nvme_total_capacity'' labelsController"
  "temperatureScale (newNvmeCollector scale) = scale"
  by (simp_all add: newNvmeCollector_def)

lemma collector_sensors [simp]:
  "nvmeTemperatureSensors (newNvmeCollector scale) = sensorDescriptions"
  by (rule collector_fields)

lemma fqName_NewDesc [simp]: "fqName (NewDesc n ls) = n"
  by (simp add: NewDesc_def)


lemma sensorLoop_scan:
  assumes "k \<le> 8"
    and "\<forall>j. i \<le> j \<and> j \<le> k \<longrightarrow> res_Exists (gjson_Get text (''temperature_sensor_'' @ showNat j))"
    and "k < 8 \<longrightarrow> \<not> res_Exists (gjson_Get text (''temperature_sensor_'' @ showNat (k + 1)))"
    and "1 \<le> i" and "i \<le> k + 1"
  shows "sensorLoop L (newNvmeCollector scale) text path i =
         map (sensorMetric L (newNvmeCollector scale) text path) [i ..< k + 1]"
  using assms
proof (induction "k + 1 - i" arbitrary: i)
  case 0
  then have i: "i = k + 1" by simp
  show ?case
  proof (cases "k < 8")
    case True
    with 0 i show ?thesis
      by (subst sensorLoop.simps) (simp add: maxTempSensors_def)
  next
    case False
    with 0 i show ?thesis
      by (subst sensorLoop.simps) (simp add: maxTempSensors_def)
  qed
next
  case (Suc n)
  then have ik: "i \<le> k" by simp
  with Suc.prems have ex: "res_Exists (gjson_Get text (''temperature_sensor_'' @ showNat i))"
    by simp
  have rest: "sensorLoop L (newNvmeCollector scale) text path (i + 1) =
        map (sensorMetric L (newNvmeCollector scale) text path) [i + 1 ..< k + 1]"
    using Suc.hyps(1) [of "i + 1"] Suc.hyps(2) Suc.prems ik by simp
  have upt: "[i ..< k + 1] = i # [i + 1 ..< k + 1]"
    using ik by (simp add: upt_rec)
  have "sensorLoop L (newNvmeCollector scale) text path i =
        makeMetric L (newNvmeCollector scale) (sensorDescriptions ! (i - 1)) GaugeValue text
          (''temperature_sensor_'' @ showNat i) path
        # sensorLoop L (newNvmeCollector scale) text path (i + 1)"
    using ik ex Suc.prems(1) by (subst sensorLoop.simps) (simp add: maxTempSensors_def)
  also have "\<dots> = sensorMetric L (newNvmeCollector scale) text path i
        # map (sensorMetric L (newNvmeCollector scale) text path) [i + 1 ..< k + 1]"
    using ik Suc.prems(1,4) by (simp only: rest sensorMetric_def) (simp add: sensorDescriptions_nth)
  also have "\<dots> = map (sensorMetric L (newNvmeCollector scale) text path) [i ..< k + 1]"
    by (simp only: upt list.map)
  finally show ?case .
qed

lemma sensorLoop_descs:
  "1 \<le> i \<Longrightarrow> m \<in> set (sensorLoop L (newNvmeCollector scale) doc path i) \<Longrightarrow>
   desc m \<in> set sensorDescriptions"
proof (induction "9 - i" arbitrary: i)
  case 0
  then show ?case
    by (subst (asm) sensorLoop.simps) (simp add: maxTempSensors_def)
next
  case (Suc n)
  from Suc.prems(2) have
    "i \<le> 8 \<and> (m = makeMetric L (newNvmeCollector scale) (sensorDescriptions ! (i - 1)) GaugeValue doc
            (''temperature_sensor_'' @ showNat i) path \<or>
          m \<in> set (sensorLoop L (newNvmeCollector scale) doc path (i + 1)))"
    by (subst (asm) sensorLoop.simps) (simp add: maxTempSensors_def Let_def split: if_splits)
  then show ?case
  proof (elim conjE disjE)
    assume "i \<le> 8" and "m = makeMetric L (newNvmeCollector scale) (sensorDescriptions ! (i - 1)) GaugeValue doc
            (''temperature_sensor_'' @ showNat i) path"
    with Suc.prems(1) show ?thesis
      by (simp add: sensorDescriptions_length)
  next
    assume "i \<le> 8" and "m \<in> set (sensorLoop L (newNvmeCollector scale) doc path (i + 1))"
    with Suc.hyps(1) [of "i + 1"] Suc.hyps(2) show ?thesis
      by simp
  qed
qed

lemma sensor_prefix:
  "d \<in> set sensorDescriptions \<Longrightarrow> prefix ''nvme_temperature_sensor'' (fqName d)"
  by (auto simp: sensorDescriptions_def)

lemma criticalWarning_object:
  "gjson_Get doc ''critical_warning'' = Some (JObj sec) \<Longrightarrow>
   criticalWarningMetrics L c doc path =
     map (\<lambda>(d, f). makeMetric L c (d c) GaugeValue (JObj sec) f path) criticalWarningFields
     @ sensorLoop L c doc path 1"
  by (simp add: criticalWarningMetrics_def criticalWarningFields_def)

lemma criticalWarning_scalar:
  "gjson_Get doc ''critical_warning'' = Some v \<Longrightarrow> isScalar v \<Longrightarrow>
   criticalWarningMetrics L c doc path =
     [makeMetric L c (nvmeCriticalWarning c) GaugeValue doc ''critical_warning'' path]"
  by (cases v) (simp_all add: criticalWarningMetrics_def)

lemma health_not_sensor:
  "m \<in> set (healthMetrics L (newNvmeCollector scale) doc path) \<Longrightarrow>
   desc m \<notin> set sensorDescriptions"
  by (auto simp: healthMetrics_def collector_fields not_sensor)

lemma cw_not_sensor:
  "m \<in> set (map (\<lambda>(d, f). makeMetric L (newNvmeCollector scale) (d (newNvmeCollector scale)) GaugeValue sec f path)
       criticalWarningFields) \<Longrightarrow>
   desc m \<notin> set sensorDescriptions"
  by (auto simp: criticalWarningFields_def collector_fields not_sensor)

lemma filter_all: "(\<And>m. m \<in> set xs \<Longrightarrow> P m) \<Longrightarrow> filter P xs = xs"
  by (induction xs) auto

lemma filter_none: "(\<And>m. m \<in> set xs \<Longrightarrow> \<not> P m) \<Longrightarrow> filter P xs = []"
  by (induction xs) auto

text \<open>
  C5. In a valid smart log whose \<^verbatim>\<open>critical_warning\<close> is an object, let \<open>k \<le> 8\<close> be
  such that the members \<^verbatim>\<open>temperature_sensor_1\<close> to \<^verbatim>\<open>temperature_sensor_\<close>\<open>k\<close> all
  exist and, when \<open>k < 8\<close>, the next one does not (nothing is asked of the members
  with a higher number). Then the samples of the temperature sensors are exactly those
  of the indices \<open>1\<close> to \<open>k\<close>, in this order.
\<close>

theorem sensor_scan:
  assumes cw: "gjson_Get doc ''critical_warning'' = Some (JObj sec)"
    and k: "k \<le> 8"
    and present: "\<forall>i. 1 \<le> i \<and> i \<le> k \<longrightarrow>
                    res_Exists (gjson_Get doc (''temperature_sensor_'' @ showNat i))"
    and missing: "k < 8 \<longrightarrow>
                    \<not> res_Exists (gjson_Get doc (''temperature_sensor_'' @ showNat (k + 1)))"
  shows "\<exists>ms. smartLogMetrics L (newNvmeCollector scale) (Some doc) path = Inr ms \<and>
           filter (\<lambda>m. desc m \<in> set sensorDescriptions) ms =
             map (sensorMetric L (newNvmeCollector scale) doc path) [1 ..< k + 1]"
proof -
  let ?c = "newNvmeCollector scale"
  let ?P = "\<lambda>m. desc m \<in> set sensorDescriptions"
  have loop: "sensorLoop L ?c doc path 1 = map (sensorMetric L ?c doc path) [1 ..< k + 1]"
    using k present missing by (intro sensorLoop_scan) simp_all
  have 1: "filter ?P (map (\<lambda>(d, f). makeMetric L ?c (d ?c) GaugeValue (JObj sec) f path)
             criticalWarningFields) = []"
    by (rule filter_none) (rule cw_not_sensor)
  have 2: "filter ?P (sensorLoop L ?c doc path 1) = sensorLoop L ?c doc path 1"
  proof (rule filter_all)
    fix m assume "m \<in> set (sensorLoop L ?c doc path 1)"
    with sensorLoop_descs [of 1 m L scale doc path] show "?P m" by simp
  qed
  from 2 have sens: "filter ?P (map (sensorMetric L ?c doc path) [1 ..< k + 1]) =
      map (sensorMetric L ?c doc path) [1 ..< k + 1]"
    unfolding loop .
  have 3: "filter ?P (healthMetrics L ?c doc path) = []"
    by (rule filter_none) (rule health_not_sensor)
  show ?thesis
    by (simp only: smartLogMetrics_def option.case criticalWarning_object [OF cw] filter_append
          1 sens 3 loop append_Nil append_Nil2 sum.inject simp_thms ex_simps)
qed

lemma showNat_digit: "n < 10 \<Longrightarrow> showNat n = [''0123456789'' ! n]"
  by (subst showNat.simps) simp

text \<open>
  The smart log \<open>newSmartLog\<close> has the sensors 1, 2, 3 and 5: the samples are those
  of the sensors 1, 2 and 3.
\<close>

theorem sensor_scan_witness:
  "\<exists>ms. smartLogMetrics golib0 (newNvmeCollector ''celsius'') (Some newSmartLog) ''/dev/nvme0n1''
           = Inr ms \<and>
         filter (\<lambda>m. desc m \<in> set sensorDescriptions) ms =
           map (sensorMetric golib0 (newNvmeCollector ''celsius'') newSmartLog ''/dev/nvme0n1'')
             [1 ..< 3 + 1]"
proof -
  have cw: "gjson_Get newSmartLog ''critical_warning'' =
      Some (JObj [(''value'', JNum 0), (''available_spare'', JNum 0),
                  (''temp_threshold'', JNum 0), (''reliability_degraded'', JNum 0),
                  (''ro'', JNum 0), (''vmbu_failed'', JNum 0), (''pmr_ro'', JNum 0)])"
    by (simp add: gjson_Get_def newSmartLog_def)
  have present: "\<forall>i. 1 \<le> i \<and> i \<le> 3 \<longrightarrow>
      res_Exists (gjson_Get newSmartLog (''temperature_sensor_'' @ showNat i))"
  proof (intro allI impI)
    fix i :: nat
    assume "1 \<le> i \<and> i \<le> 3"
    then consider "i = 1" | "i = 2" | "i = 3" by arith
    then show "res_Exists (gjson_Get newSmartLog (''temperature_sensor_'' @ showNat i))"
      by cases (simp_all add: showNat_digit gjson_Get_def newSmartLog_def res_Exists_def)
  qed
  have missing: "(3::nat) < 8 \<longrightarrow>
      \<not> res_Exists (gjson_Get newSmartLog (''temperature_sensor_'' @ showNat (3 + 1)))"
    by (simp add: showNat_digit gjson_Get_def newSmartLog_def res_Exists_def)
  show ?thesis
    by (rule sensor_scan [OF cw _ present missing]) simp
qed

lemma cw_descs_distinct_filter:
  "filter (\<lambda>m. desc m \<in> set (map (\<lambda>(d, f). d (newNvmeCollector scale)) criticalWarningFields))
     (map (\<lambda>(d, f). makeMetric L (newNvmeCollector scale) (d (newNvmeCollector scale)) GaugeValue sec f path)
        criticalWarningFields) =
   map (\<lambda>(d, f). makeMetric L (newNvmeCollector scale) (d (newNvmeCollector scale)) GaugeValue sec f path)
        criticalWarningFields"
  by (rule filter_all) (auto simp: criticalWarningFields_def)

lemma sensor_not_cw:
  "d \<in> set sensorDescriptions \<Longrightarrow>
   d \<notin> set (map (\<lambda>(d, f). d (newNvmeCollector scale)) criticalWarningFields)"
  by (auto simp: criticalWarningFields_def collector_fields dest!: sensor_prefix)

lemma health_not_cw:
  "m \<in> set (healthMetrics L (newNvmeCollector scale) doc path) \<Longrightarrow>
   desc m \<notin> set (map (\<lambda>(d, f). d (newNvmeCollector scale)) criticalWarningFields)"
  by (auto simp: healthMetrics_def criticalWarningFields_def collector_fields NewDesc_def)

text \<open>
  C6. The extraction depends on the kind of \<^verbatim>\<open>critical_warning\<close>. When it is an object,
  the samples of the seven descriptors of the critical-warning family are exactly seven
  gauges read inside that object, one for each of \<^verbatim>\<open>value\<close>, \<^verbatim>\<open>available_spare\<close>,
  \<^verbatim>\<open>temp_threshold\<close>, \<^verbatim>\<open>reliability_degraded\<close>, \<^verbatim>\<open>ro\<close>, \<^verbatim>\<open>vmbu_failed\<close> and
  \<^verbatim>\<open>pmr_ro\<close>. When it is a scalar, the only sample among the descriptors of the
  critical-warning family and of the temperature sensors is one gauge of the metric
  \<^verbatim>\<open>nvme_critical_warning\<close>, read from the member itself.
\<close>

theorem critical_warning_dispatch:
  "(gjson_Get doc ''critical_warning'' = Some (JObj sec) \<longrightarrow>
      (\<exists>ms. smartLogMetrics L (newNvmeCollector scale) (Some doc) path = Inr ms \<and>
         filter (\<lambda>m. desc m \<in> set (map (\<lambda>(d, f). d (newNvmeCollector scale)) criticalWarningFields)) ms =
           map (\<lambda>(d, f). makeMetric L (newNvmeCollector scale) (d (newNvmeCollector scale))
                  GaugeValue (JObj sec) f path) criticalWarningFields)) \<and>
   (gjson_Get doc ''critical_warning'' = Some v \<and> isScalar v \<longrightarrow>
      (\<exists>ms. smartLogMetrics L (newNvmeCollector scale) (Some doc) path = Inr ms \<and>
         filter (\<lambda>m. desc m \<in> set (map (\<lambda>(d, f). d (newNvmeCollector scale)) criticalWarningFields)
                       \<union> set sensorDescriptions) ms =
           [makeMetric L (newNvmeCollector scale) (nvmeCriticalWarning (newNvmeCollector scale))
              GaugeValue doc ''critical_warning'' path])) \<and>
   map snd criticalWarningFields =
     [''value'', ''available_spare'', ''temp_threshold'', ''reliability_degraded'', ''ro'',
      ''vmbu_failed'', ''pmr_ro'']"
proof (intro conjI impI)
  let ?c = "newNvmeCollector scale"
  let ?cw = "set (map (\<lambda>(d, f). d ?c) criticalWarningFields)"
  have h: "filter (\<lambda>m. desc m \<in> ?cw) (healthMetrics L ?c doc path) = []"
    by (rule filter_none) (rule health_not_cw)
  {
    assume cw: "gjson_Get doc ''critical_warning'' = Some (JObj sec)"
    have s: "filter (\<lambda>m. desc m \<in> ?cw) (sensorLoop L ?c doc path 1) = []"
    proof (rule filter_none)
      fix m assume "m \<in> set (sensorLoop L ?c doc path 1)"
      with sensorLoop_descs [of 1 m L scale doc path] have "desc m \<in> set sensorDescriptions"
        by simp
      then show "desc m \<notin> ?cw" by (rule sensor_not_cw)
    qed
    show "\<exists>ms. smartLogMetrics L ?c (Some doc) path = Inr ms \<and>
         filter (\<lambda>m. desc m \<in> ?cw) ms =
           map (\<lambda>(d, f). makeMetric L ?c (d ?c) GaugeValue (JObj sec) f path) criticalWarningFields"
      by (simp only: smartLogMetrics_def option.case criticalWarning_object [OF cw] filter_append
            cw_descs_distinct_filter s h append_Nil2 sum.inject simp_thms ex_simps)
  }
  {
    assume "gjson_Get doc ''critical_warning'' = Some v \<and> isScalar v"
    then have cw: "criticalWarningMetrics L ?c doc path =
        [makeMetric L ?c (nvmeCriticalWarning ?c) GaugeValue doc ''critical_warning'' path]"
      by (simp add: criticalWarning_scalar)
    have h': "filter (\<lambda>m. desc m \<in> ?cw \<or> desc m \<in> set sensorDescriptions)
        (healthMetrics L ?c doc path) = []"
      by (rule filter_none) (use health_not_cw health_not_sensor in blast)
    have one: "nvmeCriticalWarning ?c \<in> ?cw"
      by (simp add: criticalWarningFields_def)
    show "\<exists>ms. smartLogMetrics L ?c (Some doc) path = Inr ms \<and>
         filter (\<lambda>m. desc m \<in> ?cw \<union> set sensorDescriptions) ms =
           [makeMetric L ?c (nvmeCriticalWarning ?c) GaugeValue doc ''critical_warning'' path]"
      using one by (simp add: smartLogMetrics_def cw h' del: set_map)
  }
  show "map snd criticalWarningFields =
     [''value'', ''available_spare'', ''temp_threshold'', ''reliability_degraded'', ''ro'',
      ''vmbu_failed'', ''pmr_ro'']"
    by (simp add: criticalWarningFields_def)
qed

lemmas eval_defs =
  smartLogMetrics_def criticalWarningMetrics_def healthMetrics_def makeMetric_def
  MustNewConstMetric_def collector_fields gjson_Get_def valuesOf_def strings_Contains_def
  sublist_Cons_right golib0_def

text \<open>
  The smart log \<open>newSmartLog\<close> has an object as its \<^verbatim>\<open>critical_warning\<close>, the smart log
  \<open>thermalSmartLog\<close> the number 0.
\<close>

theorem critical_warning_dispatch_witness:
  "(\<exists>ms. smartLogMetrics golib0 (newNvmeCollector ''celsius'') (Some newSmartLog) ''/dev/nvme0n1''
            = Inr ms \<and>
      filter (\<lambda>m. desc m \<in> set (map (\<lambda>(d, f). d (newNvmeCollector ''celsius'')) criticalWarningFields)) ms =
        map (\<lambda>(d, f). makeMetric golib0 (newNvmeCollector ''celsius'') (d (newNvmeCollector ''celsius''))
               GaugeValue
               (JObj [(''value'', JNum 0), (''available_spare'', JNum 0),
                      (''temp_threshold'', JNum 0), (''reliability_degraded'', JNum 0),
                      (''ro'', JNum 0), (''vmbu_failed'', JNum 0), (''pmr_ro'', JNum 0)])
               f ''/dev/nvme0n1'') criticalWarningFields) \<and>
   (\<exists>ms. smartLogMetrics golib0 (newNvmeCollector ''celsius'') (Some thermalSmartLog) ''/dev/nvme0n1''
            = Inr ms \<and>
      filter (\<lambda>m. desc m \<in> set (map (\<lambda>(d, f). d (newNvmeCollector ''celsius'')) criticalWarningFields)
                       \<union> set sensorDescriptions) ms =
        [makeMetric golib0 (newNvmeCollector ''celsius'') (nvmeCriticalWarning (newNvmeCollector ''celsius''))
           GaugeValue thermalSmartLog ''critical_warning'' ''/dev/nvme0n1''])"
proof -
  have obj: "gjson_Get newSmartLog ''critical_warning'' =
      Some (JObj [(''value'', JNum 0), (''available_spare'', JNum 0),
                  (''temp_threshold'', JNum 0), (''reliability_degraded'', JNum 0),
                  (''ro'', JNum 0), (''vmbu_failed'', JNum 0), (''pmr_ro'', JNum 0)])"
    by (simp add: gjson_Get_def newSmartLog_def)
  have sc: "gjson_Get thermalSmartLog ''critical_warning'' = Some (JNum 0) \<and> isScalar (JNum 0)"
    by (simp add: gjson_Get_def thermalSmartLog_def)
  from critical_warning_dispatch [of newSmartLog _ golib0 "''celsius''" "''/dev/nvme0n1''"] obj
    critical_warning_dispatch [of thermalSmartLog _ golib0 "''celsius''" "''/dev/nvme0n1''" "JNum 0"] sc
  show ?thesis by blast
qed

text \<open>
  C4. The claim is that \<^verbatim>\<open>thm_temp1_total_time\<close> is read into the metric
  \<^verbatim>\<open>nvme_thm_temp2_trans_time\<close> and \<^verbatim>\<open>thm_temp2_total_time\<close> into the metric
  \<^verbatim>\<open>nvme_thm_temp1_trans_time\<close>. On the smart log \<open>thermalSmartLog\<close>, whose two times
  are 5 and 7, the second metric has the value 5, as claimed, but the first has the value
  0 and not 7: \<^verbatim>\<open>Collect\<close> reads it from a member \<^verbatim>\<open>thm_temp3_total_time\<close>, which
  the smart log does not have.
\<close>

theorem thermal_total_time_eval:
  "valuesOf ''nvme_thm_temp1_trans_time''
     (smartLogMetrics golib0 (newNvmeCollector ''celsius'') (Some thermalSmartLog) ''/dev/nvme0n1'')
     = [0] \<and>
   valuesOf ''nvme_thm_temp2_trans_time''
     (smartLogMetrics golib0 (newNvmeCollector ''celsius'') (Some thermalSmartLog) ''/dev/nvme0n1'')
     = [5] \<and>
   res_Float golib0 (gjson_Get thermalSmartLog ''thm_temp2_total_time'') = 7"
  by (simp add: eval_defs thermalSmartLog_def)

text \<open>
  C10, as stated, fails: the empty object is a valid smart log without a member
  \<^verbatim>\<open>temperature\<close>, and under the scale \<^verbatim>\<open>celsius\<close> the sample of the temperature has the
  value \<open>-273\<close>, not 0.
\<close>

theorem absent_temperature_counterexample:
  "gjson_Get (JObj []) ''temperature'' = None \<and>
   valuesOf ''nvme_temperature''
     (smartLogMetrics golib0 (newNvmeCollector ''celsius'') (Some (JObj [])) ''/dev/nvme0n1'')
     = [- 273]"
  by (simp add: eval_defs)

lemma healthFields_names:
  "map (\<lambda>(d, t, f). f) healthFields =
     [''temperature'', ''avail_spare'', ''spare_thresh'', ''percent_used'',
      ''endurance_grp_critical_warning_summary'', ''data_units_read'', ''data_units_written'',
      ''host_read_commands'', ''host_write_commands'', ''controller_busy_time'',
      ''power_cycles'', ''power_on_hours'', ''unsafe_shutdowns'', ''media_errors'',
      ''num_err_log_entries'', ''warning_temp_time'', ''critical_comp_time'',
      ''thm_temp1_trans_count'', ''thm_temp2_trans_count'', ''thm_temp3_total_time'',
      ''thm_temp1_total_time'']"
  by (simp add: healthFields_def)

lemma all_list21:
  "(\<forall>x \<in> set [x1,x2,x3,x4,x5,x6,x7,x8,x9,x10,x11,x12,x13,x14,x15,x16,x17,x18,x19,x20,x21]. P x) =
   (P x1 \<and> P x2 \<and> P x3 \<and> P x4 \<and> P x5 \<and> P x6 \<and> P x7 \<and> P x8 \<and> P x9 \<and> P x10 \<and> P x11 \<and>
    P x12 \<and> P x13 \<and> P x14 \<and> P x15 \<and> P x16 \<and> P x17 \<and> P x18 \<and> P x19 \<and> P x20 \<and> P x21)"
  by simp

lemma names_temperature:
  "\<forall>f \<in> set (map (\<lambda>(d, t, f). f) healthFields).
     strings_Contains f ''temperature'' = (f = ''temperature'')"
  unfolding healthFields_names all_list21
  by (simp add: strings_Contains_def sublist_Cons_right)

lemma healthFields_temperature:
  "(d, t, f) \<in> set healthFields \<Longrightarrow> strings_Contains f ''temperature'' = (f = ''temperature'')"
  using names_temperature by force

lemma criticalWarningFields_temperature:
  "(d, f) \<in> set criticalWarningFields \<Longrightarrow> \<not> strings_Contains f ''temperature''"
  by (auto simp: criticalWarningFields_def strings_Contains_def sublist_Cons_right)

lemma makeMetric_absent:
  "gjson_Get doc f = None \<Longrightarrow>
   makeMetric L c d t doc f path =
     MustNewConstMetric d t
       (if strings_Contains f ''temperature'' then
          (if temperatureScale c = ''celsius'' then - 273
           else if temperatureScale c = ''fahrenheit'' then - 459.67 else 0)
        else 0) [path]"
  by (simp add: makeMetric_def Let_def)

text \<open>
  C10, amended. A text that is not valid JSON is fatal and gives no sample. For a valid
  smart log the extraction is not an error, and a member \<open>f\<close> that the document does
  not have reads as 0: when \<open>f\<close> is one of the members read from every smart log, its
  sample has the value 0, except that the sample of \<^verbatim>\<open>temperature\<close> has the conversion of
  0 kelvin to the scale (\<open>-273\<close> under \<^verbatim>\<open>celsius\<close>, \<open>-459.67\<close> under \<^verbatim>\<open>fahrenheit\<close>, 0
  otherwise); a missing \<^verbatim>\<open>critical_warning\<close> gives a sample 0 of the critical warning;
  and a missing \<^verbatim>\<open>temperature_sensor_1\<close> gives no sample of any temperature sensor.
\<close>

theorem absent_member:
  assumes "gjson_Get doc f = None"
  shows "smartLogMetrics L (newNvmeCollector scale) None path = Inl (InvalidSmartLogJson path) \<and>
    (\<exists>ms. smartLogMetrics L (newNvmeCollector scale) (Some doc) path = Inr ms \<and>
       ((d, t, f) \<in> set healthFields \<longrightarrow>
          MustNewConstMetric (d (newNvmeCollector scale)) t
            (if f = ''temperature'' then
               (if scale = ''celsius'' then - 273
                else if scale = ''fahrenheit'' then - 459.67 else 0)
             else 0) [path] \<in> set ms) \<and>
       (f = ''critical_warning'' \<longrightarrow>
          MustNewConstMetric (nvmeCriticalWarning (newNvmeCollector scale)) GaugeValue 0 [path]
            \<in> set ms) \<and>
       (f = ''temperature_sensor_1'' \<longrightarrow>
          filter (\<lambda>m. desc m \<in> set sensorDescriptions) ms = []))"
proof -
  let ?c = "newNvmeCollector scale"
  have 1: "smartLogMetrics L ?c None path = Inl (InvalidSmartLogJson path)"
    by (simp add: smartLogMetrics_def)
  have 2: "smartLogMetrics L ?c (Some doc) path =
      Inr (criticalWarningMetrics L ?c doc path @ healthMetrics L ?c doc path)"
    by (simp add: smartLogMetrics_def)
  have 3: "MustNewConstMetric (d ?c) t
            (if f = ''temperature'' then
               (if scale = ''celsius'' then - 273
                else if scale = ''fahrenheit'' then - 459.67 else 0)
             else 0) [path] \<in> set (healthMetrics L ?c doc path)"
    if mem: "(d, t, f) \<in> set healthFields"
  proof -
    from mem have "makeMetric L ?c (d ?c) t doc f path \<in> set (healthMetrics L ?c doc path)"
      unfolding healthMetrics_table by force
    then show ?thesis
      by (simp only: makeMetric_absent [OF assms] healthFields_temperature [OF mem]
            collector_fields)
  qed
  have 4: "MustNewConstMetric (nvmeCriticalWarning ?c) GaugeValue 0 [path]
            \<in> set (criticalWarningMetrics L ?c doc path)"
    if "f = ''critical_warning''"
    using that assms
    by (simp add: criticalWarningMetrics_def makeMetric_absent strings_Contains_def
          sublist_Cons_right)
  have 5: "filter (\<lambda>m. desc m \<in> set sensorDescriptions)
             (criticalWarningMetrics L ?c doc path @ healthMetrics L ?c doc path) = []"
    if f: "f = ''temperature_sensor_1''"
  proof (rule filter_none)
    fix m
    assume m: "m \<in> set (criticalWarningMetrics L ?c doc path @ healthMetrics L ?c doc path)"
    have loop: "sensorLoop L ?c doc path 1 = []"
      using assms f by (subst sensorLoop.simps) (simp add: showNat_digit res_Exists_def)
    then have loop': "sensorLoop L ?c doc path (Suc 0) = []"
      by simp
    have "desc m \<notin> set sensorDescriptions"
      if "m \<in> set (criticalWarningMetrics L ?c doc path)"
    proof (cases "gjson_Get doc ''critical_warning''")
      case None
      with that show ?thesis
        by (auto simp: criticalWarningMetrics_def collector_fields not_sensor)
    next
      case (Some v)
      with that show ?thesis
        by (cases v) (auto simp: criticalWarningMetrics_def loop' collector_fields not_sensor)
    qed
    with m health_not_sensor show "desc m \<notin> set sensorDescriptions"
      by auto
  qed
  show ?thesis
    using 1 3 4 5 by (simp add: 2)
qed

text \<open>
  The empty object under the scale \<^verbatim>\<open>fahrenheit\<close>: the temperature is \<open>-459.67\<close>, the
  power cycles and the critical warning are 0, and there is no sample of a sensor.
\<close>

theorem absent_member_witness:
  "smartLogMetrics golib0 (newNvmeCollector ''fahrenheit'') None ''/dev/nvme0n1''
     = Inl (InvalidSmartLogJson ''/dev/nvme0n1'') \<and>
   (\<exists>ms. smartLogMetrics golib0 (newNvmeCollector ''fahrenheit'') (Some (JObj [])) ''/dev/nvme0n1''
           = Inr ms \<and>
      MustNewConstMetric (nvmeTemperature (newNvmeCollector ''fahrenheit'')) GaugeValue (- 459.67)
        [''/dev/nvme0n1''] \<in> set ms) \<and>
   (\<exists>ms. smartLogMetrics golib0 (newNvmeCollector ''fahrenheit'') (Some (JObj [])) ''/dev/nvme0n1''
           = Inr ms \<and>
      MustNewConstMetric (nvmePowerCycles (newNvmeCollector ''fahrenheit'')) CounterValue 0
        [''/dev/nvme0n1''] \<in> set ms) \<and>
   (\<exists>ms. smartLogMetrics golib0 (newNvmeCollector ''fahrenheit'') (Some (JObj [])) ''/dev/nvme0n1''
           = Inr ms \<and>
      MustNewConstMetric (nvmeCriticalWarning (newNvmeCollector ''fahrenheit'')) GaugeValue 0
        [''/dev/nvme0n1''] \<in> set ms) \<and>
   (\<exists>ms. smartLogMetrics golib0 (newNvmeCollector ''fahrenheit'') (Some (JObj [])) ''/dev/nvme0n1''
           = Inr ms \<and>
      filter (\<lambda>m. desc m \<in> set sensorDescriptions) ms = [])"
proof -
  have a: "gjson_Get (JObj []) ''temperature'' = None"
    "gjson_Get (JObj []) ''power_cycles'' = None"
    "gjson_Get (JObj []) ''critical_warning'' = None"
    "gjson_Get (JObj []) ''temperature_sensor_1'' = None"
    by (simp_all add: gjson_Get_def)
  have m1: "(nvmeTemperature, GaugeValue, ''temperature'') \<in> set healthFields"
    and m2: "(nvmePowerCycles, CounterValue, ''power_cycles'') \<in> set healthFields"
    by (simp_all add: healthFields_def)
  from absent_member [of "JObj []" "''temperature''" golib0 "''fahrenheit''" "''/dev/nvme0n1''"
      nvmeTemperature GaugeValue]
    absent_member [of "JObj []" "''power_cycles''" golib0 "''fahrenheit''" "''/dev/nvme0n1''"
      nvmePowerCycles CounterValue]
    absent_member [of "JObj []" "''critical_warning''" golib0 "''fahrenheit''" "''/dev/nvme0n1''"
      nvmeTemperature GaugeValue]
    absent_member [of "JObj []" "''temperature_sensor_1''" golib0 "''fahrenheit''" "''/dev/nvme0n1''"
      nvmeTemperature GaugeValue]
    m1 m2
  show ?thesis
    by (auto simp: a)
qed

lemma val_makeMetric:
  "val (makeMetric L c d t doc substring label) =
     (let value = res_Float L (gjson_Get doc substring) in
      if strings_Contains substring ''temperature'' then
        (if temperatureScale c = ''celsius'' then
           (if temperatureScale c = ''fahrenheit'' then (value - 273 - 273.15) * 9 / 5 + 32
            else value - 273)
         else if temperatureScale c = ''fahrenheit'' then (value - 273.15) * 9 / 5 + 32
         else value)
      else value)"
  by (simp add: makeMetric_def MustNewConstMetric_def Let_def)

lemma sensor_name_contains:
  "strings_Contains (''temperature_sensor_'' @ showNat i) ''temperature''"
proof -
  have "sublist ''temperature'' (''temperature'' @ ''_sensor_'' @ showNat i)"
    by (rule prefix_imp_sublist) simp
  then show ?thesis
    by (simp add: strings_Contains_def)
qed

lemma val_makeMetric_temperature:
  "strings_Contains substring ''temperature'' \<Longrightarrow>
   val (makeMetric L c d t doc substring label) =
     kelvinTo (temperatureScale c) (res_Float L (gjson_Get doc substring))"
  by (simp add: val_makeMetric kelvinTo_def Let_def)

lemma criticalWarning_not_temperature:
  assumes "m \<in> set (criticalWarningMetrics L (newNvmeCollector scale) doc path)"
  shows "fqName (desc m) \<noteq> ''nvme_temperature''"
proof -
  let ?c = "newNvmeCollector scale"
  have loop: "fqName (desc m) \<noteq> ''nvme_temperature''"
    if "m \<in> set (sensorLoop L ?c doc path (Suc 0))"
  proof -
    from that sensorLoop_descs [of 1 m L scale doc path]
    have "desc m \<in> set sensorDescriptions" by simp
    from sensor_prefix [OF this] show ?thesis by auto
  qed
  show ?thesis
  proof (cases "gjson_Get doc ''critical_warning''")
    case None
    with assms show ?thesis
      by (auto simp: criticalWarningMetrics_def collector_fields)
  next
    case (Some v)
    with assms loop show ?thesis
      by (cases v) (auto simp: criticalWarningMetrics_def collector_fields)
  qed
qed

lemma health_temperature:
  "filter (\<lambda>m. fqName (desc m) = ''nvme_temperature'')
     (healthMetrics L (newNvmeCollector scale) doc path) =
   [makeMetric L (newNvmeCollector scale) (nvmeTemperature (newNvmeCollector scale)) GaugeValue
      doc ''temperature'' path]"
  by (simp add: healthMetrics_def collector_fields)

lemma temperature_sample:
  "valuesOf ''nvme_temperature'' (smartLogMetrics L (newNvmeCollector scale) (Some doc) path) =
     [kelvinTo scale (res_Float L (gjson_Get doc ''temperature''))]"
proof -
  have cw: "filter (\<lambda>m. fqName (desc m) = ''nvme_temperature'')
      (criticalWarningMetrics L (newNvmeCollector scale) doc path) = []"
    by (rule filter_none) (rule criticalWarning_not_temperature)
  have t: "strings_Contains ''temperature'' ''temperature''"
    by (simp add: strings_Contains_def)
  show ?thesis
    by (simp add: valuesOf_def smartLogMetrics_def cw health_temperature
          val_makeMetric_temperature [OF t] collector_fields)
qed

lemma sensor_samples:
  assumes cw: "gjson_Get doc ''critical_warning'' = Some (JObj sec)"
    and k: "k \<le> 8"
    and present: "\<forall>i. 1 \<le> i \<and> i \<le> k \<longrightarrow>
                    res_Exists (gjson_Get doc (''temperature_sensor_'' @ showNat i))"
    and missing: "k < 8 \<longrightarrow>
                    \<not> res_Exists (gjson_Get doc (''temperature_sensor_'' @ showNat (k + 1)))"
  shows "\<exists>ms. smartLogMetrics L (newNvmeCollector scale) (Some doc) path = Inr ms \<and>
           map (\<lambda>m. (fqName (desc m), val m)) (filter (\<lambda>m. desc m \<in> set sensorDescriptions) ms) =
             map (\<lambda>i. (''nvme_temperature_sensor'' @ showNat i,
                        kelvinTo scale
                          (res_Float L (gjson_Get doc (''temperature_sensor_'' @ showNat i)))))
               [1 ..< k + 1]"
proof -
  let ?c = "newNvmeCollector scale"
  let ?P = "\<lambda>m. desc m \<in> set sensorDescriptions"
  have loop: "sensorLoop L ?c doc path 1 = map (sensorMetric L ?c doc path) [1 ..< k + 1]"
    using k present missing by (intro sensorLoop_scan) simp_all
  have 1: "filter ?P (map (\<lambda>(d, f). makeMetric L ?c (d ?c) GaugeValue (JObj sec) f path)
             criticalWarningFields) = []"
    by (rule filter_none) (rule cw_not_sensor)
  have 2: "filter ?P (sensorLoop L ?c doc path 1) = sensorLoop L ?c doc path 1"
  proof (rule filter_all)
    fix m assume "m \<in> set (sensorLoop L ?c doc path 1)"
    with sensorLoop_descs [of 1 m L scale doc path] show "?P m" by simp
  qed
  from 2 have sens: "filter ?P (map (sensorMetric L ?c doc path) [1 ..< k + 1]) =
      map (sensorMetric L ?c doc path) [1 ..< k + 1]"
    unfolding loop .
  have 3: "filter ?P (healthMetrics L ?c doc path) = []"
    by (rule filter_none) (rule health_not_sensor)
  have ms: "filter ?P (criticalWarningMetrics L ?c doc path @ healthMetrics L ?c doc path) =
      map (sensorMetric L ?c doc path) [1 ..< k + 1]"
    by (simp only: criticalWarning_object [OF cw] filter_append 1 sens 3 loop append_Nil
          append_Nil2)
  have v: "val (sensorMetric L ?c doc path i) =
      kelvinTo (temperatureScale ?c)
        (res_Float L (gjson_Get doc (''temperature_sensor_'' @ showNat i)))" for i
    unfolding sensorMetric_def by (rule val_makeMetric_temperature [OF sensor_name_contains])
  have n: "fqName (desc (sensorMetric L ?c doc path i)) = ''nvme_temperature_sensor'' @ showNat i"
    for i
    by (simp add: sensorMetric_def)
  have each: "(fqName (desc (sensorMetric L ?c doc path i)), val (sensorMetric L ?c doc path i)) =
      (''nvme_temperature_sensor'' @ showNat i,
       kelvinTo scale (res_Float L (gjson_Get doc (''temperature_sensor_'' @ showNat i))))" for i
    by (simp only: v n collector_fields)
  have "map (\<lambda>m. (fqName (desc m), val m)) (map (sensorMetric L ?c doc path) [1 ..< k + 1]) =
        map (\<lambda>i. (''nvme_temperature_sensor'' @ showNat i,
                   kelvinTo scale
                     (res_Float L (gjson_Get doc (''temperature_sensor_'' @ showNat i)))))
          [1 ..< k + 1]"
    by (simp only: map_map comp_def each)
  then show ?thesis
    by (simp only: smartLogMetrics_def option.case ms sum.inject simp_thms ex_simps)
qed

text \<open>
  C7. For every queried name that contains \<^verbatim>\<open>temperature\<close>, the value of the metric is
  the value read, in kelvin, converted to the scale of the collector: minus 273 under
  \<^verbatim>\<open>celsius\<close>, \<open>(K - 273.15) * 9 / 5 + 32\<close> under \<^verbatim>\<open>fahrenheit\<close>, unchanged under
  \<^verbatim>\<open>kelvin\<close> and any other scale. The name \<^verbatim>\<open>temperature\<close> and the names of all the
  sensors contain \<^verbatim>\<open>temperature\<close>, and the samples that the collection of a smart log
  emits are converted alike: the one sample of \<^verbatim>\<open>nvme_temperature\<close> is the conversion of
  the member \<^verbatim>\<open>temperature\<close>, and the samples of the temperature sensors 1 to \<open>k\<close> are
  the conversions of the members \<^verbatim>\<open>temperature_sensor_1\<close> to
  \<^verbatim>\<open>temperature_sensor_\<close>\<open>k\<close>. The value 296 gives 23, 73.13 and 296, in \<^verbatim>\<open>makeMetric\<close>
  and in the sample emitted. (The arithmetic of \<^verbatim>\<open>float64\<close> is taken as exact.)
\<close>

theorem temperature_conversion:
  "(strings_Contains substring ''temperature'' \<longrightarrow>
      val (makeMetric L c d t doc substring label) =
        (if temperatureScale c = ''celsius'' then res_Float L (gjson_Get doc substring) - 273
         else if temperatureScale c = ''fahrenheit'' then
           (res_Float L (gjson_Get doc substring) - 273.15) * 9 / 5 + 32
         else res_Float L (gjson_Get doc substring))) \<and>
   strings_Contains ''temperature'' ''temperature'' \<and>
   strings_Contains (''temperature_sensor_'' @ showNat i) ''temperature'' \<and>
   val (makeMetric L (newNvmeCollector ''celsius'') d t (JObj [(''temperature'', JNum 296)])
          ''temperature'' label) = 23 \<and>
   val (makeMetric L (newNvmeCollector ''fahrenheit'') d t (JObj [(''temperature'', JNum 296)])
          ''temperature'' label) = 73.13 \<and>
   val (makeMetric L (newNvmeCollector ''kelvin'') d t (JObj [(''temperature'', JNum 296)])
          ''temperature'' label) = 296 \<and>
   valuesOf ''nvme_temperature'' (smartLogMetrics L (newNvmeCollector scale) (Some doc) path) =
     [kelvinTo scale (res_Float L (gjson_Get doc ''temperature''))] \<and>
   (gjson_Get doc ''critical_warning'' = Some (JObj sec) \<and> k \<le> 8 \<and>
    (\<forall>i. 1 \<le> i \<and> i \<le> k \<longrightarrow>
           res_Exists (gjson_Get doc (''temperature_sensor_'' @ showNat i))) \<and>
    (k < 8 \<longrightarrow> \<not> res_Exists (gjson_Get doc (''temperature_sensor_'' @ showNat (k + 1)))) \<longrightarrow>
      (\<exists>ms. smartLogMetrics L (newNvmeCollector scale) (Some doc) path = Inr ms \<and>
         map (\<lambda>m. (fqName (desc m), val m))
             (filter (\<lambda>m. desc m \<in> set sensorDescriptions) ms) =
           map (\<lambda>i. (''nvme_temperature_sensor'' @ showNat i,
                      kelvinTo scale
                        (res_Float L (gjson_Get doc (''temperature_sensor_'' @ showNat i)))))
             [1 ..< k + 1])) \<and>
   valuesOf ''nvme_temperature''
     (smartLogMetrics L (newNvmeCollector ''celsius'') (Some (JObj [(''temperature'', JNum 296)]))
        path) = [23] \<and>
   valuesOf ''nvme_temperature''
     (smartLogMetrics L (newNvmeCollector ''fahrenheit'') (Some (JObj [(''temperature'', JNum 296)]))
        path) = [73.13] \<and>
   valuesOf ''nvme_temperature''
     (smartLogMetrics L (newNvmeCollector ''kelvin'') (Some (JObj [(''temperature'', JNum 296)]))
        path) = [296]"
proof -
  have t: "strings_Contains ''temperature'' ''temperature''"
    by (simp add: strings_Contains_def)
  have g: "gjson_Get (JObj [(''temperature'', JNum 296)]) ''temperature'' = Some (JNum 296)"
    by (simp add: gjson_Get_def)
  have 1: "val (makeMetric L c d t doc substring label) =
        (if temperatureScale c = ''celsius'' then res_Float L (gjson_Get doc substring) - 273
         else if temperatureScale c = ''fahrenheit'' then
           (res_Float L (gjson_Get doc substring) - 273.15) * 9 / 5 + 32
         else res_Float L (gjson_Get doc substring))"
    if "strings_Contains substring ''temperature''"
    using that by (simp add: val_makeMetric Let_def)
  have 2: "val (makeMetric L (newNvmeCollector ''celsius'') d t (JObj [(''temperature'', JNum 296)])
          ''temperature'' label) = 23"
    using t by (simp add: val_makeMetric g collector_fields)
  have 3: "val (makeMetric L (newNvmeCollector ''fahrenheit'') d t (JObj [(''temperature'', JNum 296)])
          ''temperature'' label) = 73.13"
    using t by (simp add: val_makeMetric g collector_fields)
  have 4: "val (makeMetric L (newNvmeCollector ''kelvin'') d t (JObj [(''temperature'', JNum 296)])
          ''temperature'' label) = 296"
    using t by (simp add: val_makeMetric g collector_fields)
  have 5: "valuesOf ''nvme_temperature''
     (smartLogMetrics L (newNvmeCollector ''celsius'') (Some (JObj [(''temperature'', JNum 296)]))
        path) = [23]"
    by (simp add: temperature_sample g kelvinTo_def)
  have 6: "valuesOf ''nvme_temperature''
     (smartLogMetrics L (newNvmeCollector ''fahrenheit'') (Some (JObj [(''temperature'', JNum 296)]))
        path) = [73.13]"
    by (simp add: temperature_sample g kelvinTo_def)
  have 7: "valuesOf ''nvme_temperature''
     (smartLogMetrics L (newNvmeCollector ''kelvin'') (Some (JObj [(''temperature'', JNum 296)]))
        path) = [296]"
    by (simp add: temperature_sample g kelvinTo_def)
  from 1 t sensor_name_contains 2 3 4 temperature_sample sensor_samples 5 6 7
  show ?thesis
    by (intro conjI impI) blast+
qed

text \<open>
  The sensors 1, 2 and 3 of \<open>newSmartLog\<close>, 302, 298 and 296 kelvin, are emitted as
  83.93, 76.73 and 73.13 degrees Fahrenheit.
\<close>

theorem temperature_conversion_witness:
  "strings_Contains ''temperature_sensor_1'' ''temperature'' \<and>
   val (makeMetric golib0 (newNvmeCollector ''fahrenheit'')
          (NewDesc ''nvme_temperature_sensor1'' labelsDevice) GaugeValue newSmartLog
          ''temperature_sensor_1'' ''/dev/nvme0n1'') = 83.93 \<and>
   (\<exists>ms. smartLogMetrics golib0 (newNvmeCollector ''fahrenheit'') (Some newSmartLog) ''/dev/nvme0n1''
           = Inr ms \<and>
      map (\<lambda>m. (fqName (desc m), val m)) (filter (\<lambda>m. desc m \<in> set sensorDescriptions) ms) =
        [(''nvme_temperature_sensor1'', 83.93), (''nvme_temperature_sensor2'', 76.73),
         (''nvme_temperature_sensor3'', 73.13)])"
proof -
  have c: "strings_Contains ''temperature_sensor_1'' ''temperature''"
    by (simp add: strings_Contains_def sublist_Cons_right)
  have g: "res_Float golib0 (gjson_Get newSmartLog ''temperature_sensor_1'') = 302"
    "res_Float golib0 (gjson_Get newSmartLog ''temperature_sensor_2'') = 298"
    "res_Float golib0 (gjson_Get newSmartLog ''temperature_sensor_3'') = 296"
    by (simp_all add: gjson_Get_def newSmartLog_def)
  have cw: "gjson_Get newSmartLog ''critical_warning'' =
      Some (JObj [(''value'', JNum 0), (''available_spare'', JNum 0),
                  (''temp_threshold'', JNum 0), (''reliability_degraded'', JNum 0),
                  (''ro'', JNum 0), (''vmbu_failed'', JNum 0), (''pmr_ro'', JNum 0)])"
    by (simp add: gjson_Get_def newSmartLog_def)
  have present: "\<forall>i. 1 \<le> i \<and> i \<le> 3 \<longrightarrow>
      res_Exists (gjson_Get newSmartLog (''temperature_sensor_'' @ showNat i))"
  proof (intro allI impI)
    fix i :: nat
    assume "1 \<le> i \<and> i \<le> 3"
    then consider "i = 1" | "i = 2" | "i = 3" by arith
    then show "res_Exists (gjson_Get newSmartLog (''temperature_sensor_'' @ showNat i))"
      by cases (simp_all add: showNat_digit gjson_Get_def newSmartLog_def res_Exists_def)
  qed
  have missing: "(3::nat) < 8 \<longrightarrow>
      \<not> res_Exists (gjson_Get newSmartLog (''temperature_sensor_'' @ showNat (3 + 1)))"
    by (simp add: showNat_digit gjson_Get_def newSmartLog_def res_Exists_def)
  have le: "(3::nat) \<le> 8"
    by simp
  have upt: "[1 ..< 3 + 1] = [1, 2, 3::nat]"
    by (simp add: upt_rec)
  from temperature_conversion [of "''temperature_sensor_1''" golib0 "newNvmeCollector ''fahrenheit''"
      "NewDesc ''nvme_temperature_sensor1'' labelsDevice" GaugeValue newSmartLog "''/dev/nvme0n1''"
      _ "''fahrenheit''" "''/dev/nvme0n1''" _ 3]
    c cw present missing le
  have v: "val (makeMetric golib0 (newNvmeCollector ''fahrenheit'')
          (NewDesc ''nvme_temperature_sensor1'' labelsDevice) GaugeValue newSmartLog
          ''temperature_sensor_1'' ''/dev/nvme0n1'') =
        (if temperatureScale (newNvmeCollector ''fahrenheit'') = ''celsius'' then
           res_Float golib0 (gjson_Get newSmartLog ''temperature_sensor_1'') - 273
         else if temperatureScale (newNvmeCollector ''fahrenheit'') = ''fahrenheit'' then
           (res_Float golib0 (gjson_Get newSmartLog ''temperature_sensor_1'') - 273.15) * 9 / 5 + 32
         else res_Float golib0 (gjson_Get newSmartLog ''temperature_sensor_1''))"
    and s: "\<exists>ms. smartLogMetrics golib0 (newNvmeCollector ''fahrenheit'') (Some newSmartLog)
                 ''/dev/nvme0n1'' = Inr ms \<and>
         map (\<lambda>m. (fqName (desc m), val m))
             (filter (\<lambda>m. desc m \<in> set sensorDescriptions) ms) =
           map (\<lambda>i. (''nvme_temperature_sensor'' @ showNat i,
                      kelvinTo ''fahrenheit''
                        (res_Float golib0
                           (gjson_Get newSmartLog (''temperature_sensor_'' @ showNat i)))))
             [1 ..< 3 + 1]"
    by blast+
  have vals: "map (\<lambda>i. (''nvme_temperature_sensor'' @ showNat i,
                      kelvinTo ''fahrenheit''
                        (res_Float golib0
                           (gjson_Get newSmartLog (''temperature_sensor_'' @ showNat i)))))
             [1 ..< 3 + 1] =
        [(''nvme_temperature_sensor1'', 83.93), (''nvme_temperature_sensor2'', 76.73),
         (''nvme_temperature_sensor3'', 73.13)]"
    unfolding upt using g by (simp add: showNat_digit kelvinTo_def)
  from v have v': "val (makeMetric golib0 (newNvmeCollector ''fahrenheit'')
          (NewDesc ''nvme_temperature_sensor1'' labelsDevice) GaugeValue newSmartLog
          ''temperature_sensor_1'' ''/dev/nvme0n1'') = 83.93"
    by (simp add: collector_fields g)
  from c v' s show ?thesis
    unfolding vals by blast
qed

subsection \<open>The enrichment with the total capacity\<close>

lemma logged_apply:
  "logged cmd arg (w, calls) =
     (case cmd arg w of (r, w') \<Rightarrow> (r, (w', calls @ [(arg, r)])))"
  by (simp add: logged_def)

lemma enrich_logged:
  "enrichDevices L (logged idCtrl) devs (w, calls) = (Inr devs', (w', calls')) \<Longrightarrow>
   \<exists>outs. length outs = length devs \<and>
     calls' = calls @ map2 (\<lambda>d out. (''/dev/'' @ nsController d, Inr out)) devs outs \<and>
     devs' = map2 (\<lambda>d out. d\<lparr>nsTotalCapacity := res_Int L (gjson_Get out ''tnvmcap'')\<rparr>) devs outs"
proof (induction devs arbitrary: w calls devs')
  case Nil
  then show ?case by simp
next
  case (Cons d ds)
  from Cons.prems obtain out w1 where
    c1: "idCtrl (''/dev/'' @ nsController d) w = (Inr out, w1)"
    by (auto simp: logged_apply split: prod.splits sum.splits)
  with Cons.prems obtain ds' where
    r: "enrichDevices L (logged idCtrl) ds (w1, calls @ [(''/dev/'' @ nsController d, Inr out)])
          = (Inr ds', (w', calls'))"
    and d': "devs' = d\<lparr>nsTotalCapacity := res_Int L (gjson_Get out ''tnvmcap'')\<rparr> # ds'"
    by (auto simp: logged_apply split: prod.splits sum.splits)
  from Cons.IH [OF r] obtain outs where
    "length outs = length ds"
    "calls' = (calls @ [(''/dev/'' @ nsController d, Inr out)])
        @ map2 (\<lambda>d out. (''/dev/'' @ nsController d, Inr out)) ds outs"
    "ds' = map2 (\<lambda>d out. d\<lparr>nsTotalCapacity := res_Int L (gjson_Get out ''tnvmcap'')\<rparr>) ds outs"
    by blast
  with d' show ?case
    by (rule_tac x = "out # outs" in exI) simp
qed

text \<open>
  C3, amended. When the enrichment succeeds, the command has been invoked once for each
  device record, in the order of the list and with the controller of that record, and
  each record has the \<^verbatim>\<open>tnvmcap\<close> of the output of its own invocation. So two records
  of one controller cause two invocations for that controller.
\<close>

theorem one_lookup_per_device:
  assumes "enrichDevices L (logged idCtrl) devs (w, []) = (Inr devs', (w', calls))"
  shows "map fst calls = map (\<lambda>d. ''/dev/'' @ nsController d) devs \<and>
    (\<exists>outs. map snd calls = map Inr outs \<and>
       devs' = map2 (\<lambda>d out. d\<lparr>nsTotalCapacity := res_Int L (gjson_Get out ''tnvmcap'')\<rparr>)
                 devs outs)"
proof -
  from enrich_logged [OF assms] obtain outs where
    len: "length outs = length devs"
    and calls: "calls = map2 (\<lambda>d out. (''/dev/'' @ nsController d, Inr out)) devs outs"
    and devs': "devs' = map2 (\<lambda>d out. d\<lparr>nsTotalCapacity := res_Int L (gjson_Get out ''tnvmcap'')\<rparr>)
                 devs outs"
    by auto
  have 1: "map fst calls = map (\<lambda>d. ''/dev/'' @ nsController d) devs"
    using len unfolding calls by (induction devs outs rule: list_induct2') auto
  have 2: "map snd calls = map Inr outs"
    using len unfolding calls by (induction devs outs rule: list_induct2') auto
  from 1 2 devs' show ?thesis by blast
qed

lemma sharedDevices_run:
  "enrichDevices golib0 (logged idCtrlConst) sharedDevices ((), []) =
     (Inr [\<lparr> devicePath = ''/dev/nvme0n1'', nsController = ''nvme0'', nsPhysicalSize = 1024,
             nsTotalCapacity = 3072, nsMaximumLBA = 2, nsUsedBytes = 512, nsSectorSize = 512 \<rparr>,
           \<lparr> devicePath = ''/dev/nvme0n2'', nsController = ''nvme0'', nsPhysicalSize = 2048,
             nsTotalCapacity = 3072, nsMaximumLBA = 4, nsUsedBytes = 512, nsSectorSize = 512 \<rparr>],
      ((), [(''/dev/nvme0'', Inr (JObj [(''vid'', JNum 5197), (''tnvmcap'', JNum 3072)])),
            (''/dev/nvme0'', Inr (JObj [(''vid'', JNum 5197), (''tnvmcap'', JNum 3072)]))]))"
  by (simp add: sharedDevices_def logged_apply idCtrlConst_def gjson_Get_def truncFloat_def)

text \<open>
  Both namespaces of \<open>sharedDevices\<close> are of the controller \<^verbatim>\<open>nvme0\<close>: the command runs
  twice for \<^verbatim>\<open>/dev/nvme0\<close>, and each namespace has the capacity of its own run.
\<close>

theorem one_lookup_per_device_witness:
  "map fst [(''/dev/nvme0'', Inr (JObj [(''vid'', JNum 5197), (''tnvmcap'', JNum 3072)]) :: error + json),
            (''/dev/nvme0'', Inr (JObj [(''vid'', JNum 5197), (''tnvmcap'', JNum 3072)]))]
     = map (\<lambda>d. ''/dev/'' @ nsController d) sharedDevices \<and>
   (\<exists>outs.
      map snd [(''/dev/nvme0'', Inr (JObj [(''vid'', JNum 5197), (''tnvmcap'', JNum 3072)]) :: error + json),
               (''/dev/nvme0'', Inr (JObj [(''vid'', JNum 5197), (''tnvmcap'', JNum 3072)]))]
        = map Inr outs \<and>
      [\<lparr> devicePath = ''/dev/nvme0n1'', nsController = ''nvme0'', nsPhysicalSize = 1024,
          nsTotalCapacity = 3072, nsMaximumLBA = 2, nsUsedBytes = 512, nsSectorSize = 512 \<rparr>,
       \<lparr> devicePath = ''/dev/nvme0n2'', nsController = ''nvme0'', nsPhysicalSize = 2048,
          nsTotalCapacity = 3072, nsMaximumLBA = 4, nsUsedBytes = 512, nsSectorSize = 512 \<rparr>]
        = map2 (\<lambda>d out. d\<lparr>nsTotalCapacity := res_Int golib0 (gjson_Get out ''tnvmcap'')\<rparr>)
            sharedDevices outs)"
  by (rule one_lookup_per_device [OF sharedDevices_run])

text \<open>
  C3, as stated, fails: the two records of \<open>sharedDevices\<close> have one controller between
  them, and the command is invoked twice.
\<close>

theorem one_lookup_per_controller_counterexample:
  "map fst (snd (snd (enrichDevices golib0 (logged idCtrlConst) sharedDevices ((), []))))
     = [''/dev/nvme0'', ''/dev/nvme0''] \<and>
   remdups (map nsController sharedDevices) = [''nvme0'']"
  by (simp add: sharedDevices_run) (simp add: sharedDevices_def)

subsection \<open>The list of devices\<close>

lemma getPath_key:
  "k \<noteq> ''#'' \<Longrightarrow>
   getPath (k # k' # ks) j = Option.bind (getPath [k] j) (getPath (k' # ks))"
  by (cases j) (auto split: option.splits)

lemma getPath_hash:
  "getPath (''#'' # k # ks) (JArr xs) = Some (JArr (List.map_filter (getPath (k # ks)) xs))"
  by simp

lemma path_ns:
  "gjson_Get doc ''Devices.#.Subsystems.#.Namespaces'' =
     Option.bind (gjson_Get doc ''Devices'') (getPath [''#'', ''Subsystems'', ''#'', ''Namespaces''])"
  by (simp add: gjson_Get_def getPath_key [of "''Devices''"])

lemma path_ctrl:
  "gjson_Get doc ''Devices.#.Subsystems.#.Controllers'' =
     Option.bind (gjson_Get doc ''Devices'') (getPath [''#'', ''Subsystems'', ''#'', ''Controllers''])"
  by (simp add: gjson_Get_def getPath_key [of "''Devices''"])

lemma path_flat:
  "gjson_Get doc ''Devices.#.DevicePath'' =
     Option.bind (gjson_Get doc ''Devices'') (getPath [''#'', ''DevicePath''])"
  by (simp add: gjson_Get_def getPath_key [of "''Devices''"])

lemma path_subsystems:
  "getPath [''Subsystems'', ''#'', k] d =
     Option.bind (gjson_Get d ''Subsystems'') (getPath [''#'', k])"
  by (simp add: gjson_Get_def getPath_key [of "''Subsystems''"])

lemma path_member:
  "getPath [''Namespaces''] j = gjson_Get j ''Namespaces''"
  "getPath [''Controllers''] j = gjson_Get j ''Controllers''"
  "getPath [''DevicePath''] j = gjson_Get j ''DevicePath''"
  by (simp_all add: gjson_Get_def)

lemma path_member_fun:
  "getPath [''Namespaces''] = (\<lambda>j. gjson_Get j ''Namespaces'')"
  "getPath [''Controllers''] = (\<lambda>j. gjson_Get j ''Controllers'')"
  "getPath [''DevicePath''] = (\<lambda>j. gjson_Get j ''DevicePath'')"
  by (rule ext, simp add: gjson_Get_def)+

lemma map_filter_Nil_iff: "List.map_filter f xs = [] \<longleftrightarrow> (\<forall>x \<in> set xs. f x = None)"
  by (induction xs) (auto simp: List.map_filter_simps split: option.splits)

lemma map_filter_all_Some:
  "map f xs = map (\<lambda>p. Some (g p)) ps \<Longrightarrow> List.map_filter f xs = map g ps"
  by (induction xs arbitrary: ps) (auto simp: List.map_filter_simps)

lemma forEach_Nil_results:
  "(\<And>x. x \<in> set xs \<Longrightarrow> body x = Inr []) \<Longrightarrow> forEach body xs = Inr []"
  by (induction xs) auto

lemma flatLoop_paths:
  "map getControllerFromNs ps = map Inr cs \<Longrightarrow>
   forEach (flatDevice L) (map JStr ps) = Inr (map2 legacyDevice ps cs)"
proof (induction ps arbitrary: cs)
  case Nil
  then show ?case by simp
next
  case (Cons p ps)
  then obtain c cs' where cs: "cs = c # cs'" by (cases cs) auto
  with Cons.prems have "getControllerFromNs p = Inr c" "map getControllerFromNs ps = map Inr cs'"
    by auto
  with Cons.IH [of cs'] cs show ?case
    by (simp add: flatDevice_def legacyDevice_def)
qed

text \<open>
  C9. A document of the flat legacy form only: \<^verbatim>\<open>Devices\<close> is an array of entries without
  \<^verbatim>\<open>Subsystems\<close>, each with a string \<^verbatim>\<open>DevicePath\<close>, at least one entry, and
  \<^verbatim>\<open>getControllerFromNs\<close> infers a controller from every path. Then \<^verbatim>\<open>getDeviceList\<close>
  returns one record for each entry, in order: its device path is the \<^verbatim>\<open>DevicePath\<close> as
  it stands, its controller the inferred one, and its physical size, used bytes, sector
  size and maximum LBA are all \<open>-1\<close>.
\<close>

theorem flat_legacy_records:
  assumes devices: "gjson_Get doc ''Devices'' = Some (JArr ds)"
    and flat: "\<forall>d \<in> set ds. gjson_Get d ''Subsystems'' = None"
    and paths: "map (\<lambda>d. gjson_Get d ''DevicePath'') ds = map (\<lambda>p. Some (JStr p)) ps"
    and inferred: "map getControllerFromNs ps = map Inr cs"
    and nonempty: "ps \<noteq> []"
  shows "getDeviceList L (Some doc) = Inr (map2 legacyDevice ps cs) \<and>
         length (map2 legacyDevice ps cs) = length ds"
proof -
  have len: "length (map2 legacyDevice ps cs) = length ds"
    using arg_cong [OF paths, of length] arg_cong [OF inferred, of length] by simp
  have a: "gjson_Get doc ''Devices.#.Subsystems.#.Namespaces'' = Some (JArr [])"
    using flat by (simp add: path_ns devices path_subsystems map_filter_Nil_iff)
  have b: "gjson_Get doc ''Devices.#.Subsystems.#.Controllers'' = Some (JArr [])"
    using flat by (simp add: path_ctrl devices path_subsystems map_filter_Nil_iff)
  have c: "gjson_Get doc ''Devices.#.DevicePath'' = Some (JArr (map JStr ps))"
    using map_filter_all_Some [OF paths] by (simp add: path_flat devices path_member_fun)
  have "getDeviceList L (Some doc) = Inr (map2 legacyDevice ps cs)"
    using nonempty by (simp add: getDeviceList_def a b c flatLoop_def flatLoop_paths [OF inferred])
  with len show ?thesis by simp
qed

text \<open>The document of the first test, \<open>oldDevices\<close>, with its expected result.\<close>

theorem flat_legacy_records_witness:
  "getDeviceList golib0 (Some oldDevices) =
     Inr [\<lparr> devicePath = ''/dev/nvme0n1'', nsController = ''nvme0'', nsPhysicalSize = - 1,
             nsTotalCapacity = 0, nsMaximumLBA = - 1, nsUsedBytes = - 1, nsSectorSize = - 1 \<rparr>]"
proof -
  let ?d = "JObj [(''NameSpace'', JNum 1),
             (''DevicePath'', JStr ''/dev/nvme0n1''),
             (''Firmware'', JStr ''XXXXXXXX''),
             (''ModelNumber'', JStr ''XXXXXXX''),
             (''SerialNumber'', JStr ''XXXXXXX''),
             (''UsedBytes'', JNum (- 2147483648)),
             (''MaximumLBA'', JNum 1875385008),
             (''PhysicalSize'', JNum (- 2147483648)),
             (''SectorSize'', JNum 512)]"
  have 1: "gjson_Get oldDevices ''Devices'' = Some (JArr [?d])"
    by (simp add: gjson_Get_def oldDevices_def)
  have 2: "\<forall>d \<in> set [?d]. gjson_Get d ''Subsystems'' = None"
    by (simp add: gjson_Get_def)
  have 3: "map (\<lambda>d. gjson_Get d ''DevicePath'') [?d] = map (\<lambda>p. Some (JStr p)) [''/dev/nvme0n1'']"
    by (simp add: gjson_Get_def)
  have 4: "map getControllerFromNs [''/dev/nvme0n1''] = map Inr [''nvme0'']"
    by (simp add: getControllerFromNs_def nsRegexp_def isDigit_def)
  from flat_legacy_records [OF 1 2 3 4, of golib0] show ?thesis
    by (simp add: legacyDevice_def)
qed

lemma subsystems_exists_iff:
  "arrayOrMissing (gjson_Get d ''Subsystems'') \<Longrightarrow>
   (getPath [''Subsystems'', ''#'', ''Namespaces''] d = None) =
   (getPath [''Subsystems'', ''#'', ''Controllers''] d = None)"
  by (cases "gjson_Get d ''Subsystems''" rule: arrayOrMissing.cases)
     (simp_all add: path_subsystems)

lemma regular_queries:
  assumes "regularDevices doc"
  shows "(res_Array (gjson_Get doc ''Devices.#.Subsystems.#.Namespaces'') = []) =
         (res_Array (gjson_Get doc ''Devices.#.Subsystems.#.Controllers'') = [])"
proof -
  from assms obtain ds where ds: "gjson_Get doc ''Devices'' = Some (JArr ds)"
    and reg: "list_all (\<lambda>d. arrayOrMissing (gjson_Get d ''Subsystems'')) ds"
    by (auto simp: regularDevices_def split: option.splits json.splits)
  from reg have "(\<forall>d \<in> set ds. getPath [''Subsystems'', ''#'', ''Namespaces''] d = None) =
      (\<forall>d \<in> set ds. getPath [''Subsystems'', ''#'', ''Controllers''] d = None)"
    using subsystems_exists_iff by (auto simp: list_all_iff)
  then show ?thesis
    by (simp add: path_ns path_ctrl ds map_filter_Nil_iff)
qed

text \<open>
  C1, amended. When \<^verbatim>\<open>getDeviceList\<close> returns, its result is the records \<open>as\<close> of the
  branch of the namespaces under a subsystem, then the records \<open>bs\<close> of the branch of the
  namespaces under a controller, then the contribution \<open>cs\<close> of the flat legacy branch:
  the branches are tried in this fixed order and the first does not shut out the second.
  The flat legacy branch contributes nothing once the second branch has found a record,
  and, in a regular document, nothing either once the first branch has found a record;
  what it does contribute is what it finds in the document.
\<close>

theorem branch_order:
  assumes ok: "getDeviceList L (Some doc) = Inr recs"
  shows "\<exists>as bs cs. nsRecords L doc = Inr as \<and> ctrlRecords L doc = Inr bs \<and>
           recs = as @ bs @ cs \<and>
           (bs \<noteq> [] \<longrightarrow> cs = []) \<and>
           (regularDevices doc \<and> as \<noteq> [] \<longrightarrow> cs = []) \<and>
           (cs \<noteq> [] \<longrightarrow> flatRecords L doc = Inr cs)"
proof -
  let ?A = "gjson_Get doc ''Devices.#.Subsystems.#.Namespaces''"
  let ?B = "gjson_Get doc ''Devices.#.Subsystems.#.Controllers''"
  let ?C = "gjson_Get doc ''Devices.#.DevicePath''"
  from ok obtain as where
    as: "(if 0 < length (res_Array ?A) then nsLoop L ?A else Inr []) = Inr as"
    by (auto simp: getDeviceList_def Let_def split: sum.splits)
  have nsr: "nsRecords L doc = Inr as"
  proof (cases "0 < length (res_Array ?A)")
    case True
    with as show ?thesis by (simp add: nsRecords_def)
  next
    case False
    with as show ?thesis by (simp add: nsRecords_def nsLoop_def)
  qed
  show ?thesis
  proof (cases "0 < length (res_Array ?B)")
    case True
    with ok as obtain bs where bs: "ctrlLoop L ?B = Inr bs" and recs: "recs = as @ bs"
      by (auto simp: getDeviceList_def Let_def split: sum.splits)
    from nsr bs recs show ?thesis
      by (intro exI [of _ as] exI [of _ bs] exI [of _ "[]"]) (simp add: ctrlRecords_def)
  next
    case False
    then have emptyB: "res_Array ?B = []" by simp
    then have ctr: "ctrlRecords L doc = Inr []"
      by (simp add: ctrlRecords_def ctrlLoop_def)
    from False ok as obtain cs where cs: "flatLoop L ?C = Inr cs" and recs: "recs = as @ cs"
      by (auto simp: getDeviceList_def Let_def split: sum.splits if_splits)
    have reg: "as = []" if "regularDevices doc"
    proof -
      from regular_queries [OF that] emptyB have "res_Array ?A = []" by simp
      with as show ?thesis by simp
    qed
    from nsr ctr cs recs reg show ?thesis
      by (intro exI [of _ as] exI [of _ "[]"] exI [of _ cs]) (auto simp: flatRecords_def)
  qed
qed

lemmas topology_eval =
  getDeviceList_def nsRecords_def ctrlRecords_def flatRecords_def nsLoop_def ctrlLoop_def
  flatLoop_def subsystemNamespace_def controllerNamespaces_def namespaceDevice_def
  flatDevice_def getControllerFromNs_def nsRegexp_def isDigit_def gjson_Get_def
  List.map_filter_simps truncFloat_def golib0_def

lemma mixedDevices_eval:
  "nsRecords golib0 mixedDevices = Inr [nvme9n1]"
  "ctrlRecords golib0 mixedDevices = Inr [nvme3n1]"
  "getDeviceList golib0 (Some mixedDevices) = Inr [nvme9n1, nvme3n1]"
  by (simp_all add: topology_eval mixedDevices_def subsys9_def subsys3_def nvme9n1_def nvme3n1_def)

lemma forEach_map_filter:
  "forEach g (List.map_filter f xs) = forEach (\<lambda>x. case f x of None \<Rightarrow> Inr [] | Some v \<Rightarrow> g v) xs"
  by (induction xs) (auto simp: List.map_filter_simps split: option.splits sum.splits)

lemma forEach_single: "forEach g [x] = g x"
  by (cases "g x") simp_all

lemma one_device_queries:
  assumes "gjson_Get doc ''Devices'' = Some (JArr [dev])"
    and "gjson_Get dev ''Subsystems'' = Some (JArr subs)"
  shows "gjson_Get doc ''Devices.#.Subsystems.#.Namespaces'' =
           Some (JArr [JArr (List.map_filter (\<lambda>s. gjson_Get s ''Namespaces'') subs)])"
    and "gjson_Get doc ''Devices.#.Subsystems.#.Controllers'' =
           Some (JArr [JArr (List.map_filter (\<lambda>s. gjson_Get s ''Controllers'') subs)])"
  using assms
  by (simp_all add: path_ns path_ctrl path_subsystems path_member_fun)

lemma one_device_loops:
  assumes "gjson_Get doc ''Devices'' = Some (JArr [dev])"
    and "gjson_Get dev ''Subsystems'' = Some (JArr subs)"
  shows "nsLoop L (gjson_Get doc ''Devices.#.Subsystems.#.Namespaces'') =
           forEach (\<lambda>s. forEach (subsystemNamespace L) (res_Array (gjson_Get s ''Namespaces''))) subs"
    and "ctrlLoop L (gjson_Get doc ''Devices.#.Subsystems.#.Controllers'') =
           forEach (\<lambda>s. forEach (controllerNamespaces L) (res_Array (gjson_Get s ''Controllers''))) subs"
proof -
  have opt: "(case r of None \<Rightarrow> Inr [] | Some v \<Rightarrow> forEach g (res_Array (Some v))) =
             forEach g (res_Array r)" for r and g :: "json \<Rightarrow> error + nvmeNamespace list"
    by (cases r) simp_all
  show "nsLoop L (gjson_Get doc ''Devices.#.Subsystems.#.Namespaces'') =
           forEach (\<lambda>s. forEach (subsystemNamespace L) (res_Array (gjson_Get s ''Namespaces''))) subs"
    by (simp add: one_device_queries [OF assms] nsLoop_def forEach_map_filter opt split: sum.splits)
  show "ctrlLoop L (gjson_Get doc ''Devices.#.Subsystems.#.Controllers'') =
           forEach (\<lambda>s. forEach (controllerNamespaces L) (res_Array (gjson_Get s ''Controllers''))) subs"
    by (simp add: one_device_queries [OF assms] ctrlLoop_def forEach_map_filter opt split: sum.splits)
qed

text \<open>
  C2, amended. A document with one entry in \<^verbatim>\<open>Devices\<close> and two subsystems, in either
  order: one with a single namespace directly under it (and only controllers that are
  named and have no namespace), one with a single named controller that has a single
  namespace (and no namespace directly under the subsystem). When the controller of the
  first namespace can be inferred from its name, \<^verbatim>\<open>getDeviceList\<close> returns exactly two
  records, each with its own controller: first the namespace under the subsystem with
  the inferred controller, then the namespace under the controller with the declared
  one, whichever subsystem the document lists first.
\<close>

theorem mixed_subsystems:
  assumes devices: "gjson_Get doc ''Devices'' = Some (JArr [dev])"
    and subsystems: "gjson_Get dev ''Subsystems'' = Some (JArr subs)"
    and order: "subs = [bare, ctl] \<or> subs = [ctl, bare]"
    and bare_ns: "gjson_Get bare ''Namespaces'' = Some (JArr [nb])"
    and bare_ctrls: "\<forall>c \<in> set (res_Array (gjson_Get bare ''Controllers'')).
        res_String L (gjson_Get c ''Controller'') \<noteq> [] \<and>
        res_Array (gjson_Get c ''Namespaces'') = []"
    and infer: "getControllerFromNs (res_String L (gjson_Get nb ''NameSpace'')) = Inr inferred"
    and ctl_ctrls: "gjson_Get ctl ''Controllers'' = Some (JArr [c])"
    and ctl_name: "res_String L (gjson_Get c ''Controller'') = cid" "cid \<noteq> []"
    and ctl_ns: "gjson_Get c ''Namespaces'' = Some (JArr [nc])"
    and ctl_own: "res_Array (gjson_Get ctl ''Namespaces'') = []"
  shows "getDeviceList L (Some doc) =
           Inr [namespaceDevice L nb inferred, namespaceDevice L nc cid]"
proof -
  have nb: "forEach (subsystemNamespace L) (res_Array (gjson_Get bare ''Namespaces'')) =
      Inr [namespaceDevice L nb inferred]"
    by (simp add: bare_ns subsystemNamespace_def infer)
  have nc0: "forEach (subsystemNamespace L) (res_Array (gjson_Get ctl ''Namespaces'')) = Inr []"
    by (simp add: ctl_own)
  have cb: "forEach (controllerNamespaces L) (res_Array (gjson_Get bare ''Controllers'')) = Inr []"
    using bare_ctrls by (intro forEach_Nil_results) (simp add: controllerNamespaces_def)
  have cc: "forEach (controllerNamespaces L) (res_Array (gjson_Get ctl ''Controllers'')) =
      Inr [namespaceDevice L nc cid]"
    using ctl_name by (simp add: ctl_ctrls controllerNamespaces_def ctl_ns)
  have A: "nsLoop L (gjson_Get doc ''Devices.#.Subsystems.#.Namespaces'') =
      Inr [namespaceDevice L nb inferred]"
    using order by (auto simp: one_device_loops [OF devices subsystems] nb nc0)
  have B: "ctrlLoop L (gjson_Get doc ''Devices.#.Subsystems.#.Controllers'') =
      Inr [namespaceDevice L nc cid]"
    using order by (auto simp: one_device_loops [OF devices subsystems] cb cc)
  note q = one_device_queries [OF devices subsystems]
  show ?thesis
    by (simp add: getDeviceList_def q A [unfolded q] B [unfolded q])
qed

text \<open>
  The mixed document of the fourth test is regular; both the first and the second branch
  find a record in it, and the flat legacy branch adds nothing.
\<close>

theorem branch_order_witness:
  "regularDevices mixedDevices \<and>
   (\<exists>as bs. nsRecords golib0 mixedDevices = Inr as \<and> ctrlRecords golib0 mixedDevices = Inr bs \<and>
      as \<noteq> [] \<and> bs \<noteq> [] \<and> [nvme9n1, nvme3n1] = as @ bs @ [])"
proof -
  have reg: "regularDevices mixedDevices"
    by (simp add: regularDevices_def gjson_Get_def mixedDevices_def)
  from branch_order [OF mixedDevices_eval(3)] obtain as bs cs where
    "nsRecords golib0 mixedDevices = Inr as" "ctrlRecords golib0 mixedDevices = Inr bs"
    "[nvme9n1, nvme3n1] = as @ bs @ cs" "bs \<noteq> [] \<longrightarrow> cs = []"
    by blast
  with mixedDevices_eval(1,2) reg show ?thesis
    by auto
qed

text \<open>
  C1, as stated, fails on the mixed document of the fourth test: the first branch yields
  the non-empty list of \<^verbatim>\<open>nvme9n1\<close>, and still the second branch contributes
  \<^verbatim>\<open>nvme3n1\<close> to the result.
\<close>

theorem first_match_wins_counterexample:
  "nsRecords golib0 mixedDevices = Inr [nvme9n1] \<and>
   ctrlRecords golib0 mixedDevices = Inr [nvme3n1] \<and>
   getDeviceList golib0 (Some mixedDevices) = Inr [nvme9n1, nvme3n1]"
  by (simp add: mixedDevices_eval)

text \<open>
  The mixed document of the fourth test and the same document with its two subsystems
  exchanged: both give \<^verbatim>\<open>nvme9n1\<close> before \<^verbatim>\<open>nvme3n1\<close>.
\<close>

theorem mixed_subsystems_witness:
  "getDeviceList golib0 (Some mixedDevices) = Inr [nvme9n1, nvme3n1] \<and>
   getDeviceList golib0 (Some mixedDevicesReversed) = Inr [nvme9n1, nvme3n1]"
proof -
  let ?dev = "JObj [(''HostNQN'', JStr ''2f91420a-922f-5e49-b86e-b6bdc2f62412''),
             (''HostID'', JStr ''95a57b1a-be86-4528-b093-57c49ee379d6''),
             (''Subsystems'', JArr [subsys9, subsys3])]"
  let ?rev = "JObj [(''HostNQN'', JStr ''2f91420a-922f-5e49-b86e-b6bdc2f62412''),
             (''HostID'', JStr ''95a57b1a-be86-4528-b093-57c49ee379d6''),
             (''Subsystems'', JArr [subsys3, subsys9])]"
  let ?nb = "JObj [(''NameSpace'', JStr ''nvme9n1''), (''Generic'', JStr ''ng9n1''),
                    (''NSID'', JNum 29017), (''UsedBytes'', JNum 137438953472),
                    (''MaximumLBA'', JNum 268435456), (''PhysicalSize'', JNum 137438953472),
                    (''SectorSize'', JNum 512)]"
  let ?nc = "JObj [(''NameSpace'', JStr ''nvme3n1''), (''Generic'', JStr ''ng3n1''),
                             (''NSID'', JNum 1), (''UsedBytes'', JNum 7486193664),
                             (''MaximumLBA'', JNum 1875385008),
                             (''PhysicalSize'', JNum 960197124096),
                             (''SectorSize'', JNum 512)]"
  let ?c = "JObj [(''Controller'', JStr ''nvme3''), (''Cntlid'', JStr ''0''),
                    (''Transport'', JStr ''pcie''), (''Slot'', JStr ''12''),
                    (''Namespaces'', JArr [?nc]),
                    (''Paths'', JArr [])]"
  have d1: "gjson_Get mixedDevices ''Devices'' = Some (JArr [?dev])"
    and d2: "gjson_Get mixedDevicesReversed ''Devices'' = Some (JArr [?rev])"
    by (simp_all add: gjson_Get_def mixedDevices_def mixedDevicesReversed_def)
  have s1: "gjson_Get ?dev ''Subsystems'' = Some (JArr [subsys9, subsys3])"
    and s2: "gjson_Get ?rev ''Subsystems'' = Some (JArr [subsys3, subsys9])"
    by (simp_all add: gjson_Get_def)
  have o1: "[subsys9, subsys3] = [subsys9, subsys3] \<or> [subsys9, subsys3] = [subsys3, subsys9]"
    and o2: "[subsys3, subsys9] = [subsys9, subsys3] \<or> [subsys3, subsys9] = [subsys3, subsys9]"
    by simp_all
  have b1: "gjson_Get subsys9 ''Namespaces'' = Some (JArr [?nb])"
    by (simp add: gjson_Get_def subsys9_def)
  have b2: "\<forall>c \<in> set (res_Array (gjson_Get subsys9 ''Controllers'')).
        res_String golib0 (gjson_Get c ''Controller'') \<noteq> [] \<and>
        res_Array (gjson_Get c ''Namespaces'') = []"
    by (simp add: gjson_Get_def subsys9_def)
  have b3: "getControllerFromNs (res_String golib0 (gjson_Get ?nb ''NameSpace'')) = Inr ''nvme9''"
    by (simp add: gjson_Get_def getControllerFromNs_def nsRegexp_def isDigit_def)
  have c1: "gjson_Get subsys3 ''Controllers'' = Some (JArr [?c])"
    by (simp add: gjson_Get_def subsys3_def)
  have c2: "res_String golib0 (gjson_Get ?c ''Controller'') = ''nvme3''" "''nvme3'' \<noteq> []"
    by (simp_all add: gjson_Get_def)
  have c3: "gjson_Get ?c ''Namespaces'' = Some (JArr [?nc])"
    by (simp add: gjson_Get_def)
  have c4: "res_Array (gjson_Get subsys3 ''Namespaces'') = []"
    by (simp add: gjson_Get_def subsys3_def)
  have r1: "namespaceDevice golib0 ?nb ''nvme9'' = nvme9n1"
    and r2: "namespaceDevice golib0 ?nc ''nvme3'' = nvme3n1"
    by (simp_all add: namespaceDevice_def gjson_Get_def nvme9n1_def nvme3n1_def truncFloat_def)
  from mixed_subsystems [OF d1 s1 o1 b1 b2 b3 c1 c2 c3 c4]
    mixed_subsystems [OF d2 s2 o2 b1 b2 b3 c1 c2 c3 c4]
  show ?thesis
    by (simp only: r1 r2 simp_thms)
qed

text \<open>
  C2, as stated, fails on \<open>mixedDevicesReversed\<close>: the document lists the subsystem
  \<^verbatim>\<open>nvme-subsys3\<close>, with \<^verbatim>\<open>nvme3n1\<close> under its controller, before \<^verbatim>\<open>nvme-subsys9\<close>,
  but the result lists \<^verbatim>\<open>nvme9n1\<close> before \<^verbatim>\<open>nvme3n1\<close>: not the order in which the
  document presents them.
\<close>

theorem document_order_counterexample:
  "gjson_Get mixedDevicesReversed ''Devices.#.Subsystems.#.Subsystem'' =
     Some (JArr [JArr [JStr ''nvme-subsys3'', JStr ''nvme-subsys9'']]) \<and>
   ctrlRecords golib0 mixedDevicesReversed = Inr [nvme3n1] \<and>
   nsRecords golib0 mixedDevicesReversed = Inr [nvme9n1] \<and>
   getDeviceList golib0 (Some mixedDevicesReversed) = Inr [nvme9n1, nvme3n1] \<and>
   getDeviceList golib0 (Some mixedDevicesReversed) \<noteq> Inr [nvme3n1, nvme9n1]"
  by (simp add: topology_eval mixedDevicesReversed_def subsys9_def subsys3_def nvme9n1_def
        nvme3n1_def)

end
